theory Spec2Isabelle
  imports Main
begin

section \<open>Tokens (lexer.py)\<close>

text \<open>
  The token kinds are the string constants of class \<open>TokenType\<close>; a \<open>Token\<close> is the
  dataclass with the fields \<open>type\<close> and \<open>value\<close>.
\<close>

datatype TokenType =
    STRING | NUMBER | LOGICAL_OR | LOGICAL_AND
  | OPENING_PARENTHESIS | CLOSING_PARENTHESIS
  | OPENING_SQUARE_BRACKET | CLOSING_SQUARE_BRACKET
  | OPENING_CURLY_BRACKET | CLOSING_CURLY_BRACKET
  | COMPARISON_OPERATOR | ADDITIVE_OPERATOR | MULTIPLICATIVE_OPERATOR
  | COLON | KEYWORD | LOGICAL_OPERATOR | COMMA | DOT | IDENTIFIER
  | EQUALS | EQUALITY | FILTER | MODIFIER | NULL | FAT_ARROW
  | JOINS | UNIONS | OVER | MEMBERSHIP_OPERATOR

datatype Token = Token (tok_type: TokenType) (tok_value: string)

section \<open>The regular expressions of \<open>token_spec\<close>\<close>

text \<open>
  A character of the model is one code point of the source text (code points below 256).
  \<open>is_word\<close> is the class \<open>\w\<close> of Python's \<open>re\<close> on \<open>str\<close> patterns (alphanumeric
  code points and the underscore), \<open>is_digit\<close> is \<open>\d\<close>.
\<close>

definition code_point :: "char \<Rightarrow> nat" where
  "code_point c = of_char c"

definition is_digit :: "char \<Rightarrow> bool" where
  "is_digit c = (let n = code_point c in 48 \<le> n \<and> n \<le> 57)"

definition is_word :: "char \<Rightarrow> bool" where
  "is_word c =
     (let n = code_point c in
        (97 \<le> n \<and> n \<le> 122) \<or> (65 \<le> n \<and> n \<le> 90) \<or> (48 \<le> n \<and> n \<le> 57) \<or> n = 95
        \<or> n = 170 \<or> n = 178 \<or> n = 179 \<or> n = 181 \<or> n = 185 \<or> n = 186
        \<or> n = 188 \<or> n = 189 \<or> n = 190
        \<or> (192 \<le> n \<and> n \<noteq> 215 \<and> n \<noteq> 247))"

definition is_quote :: "char \<Rightarrow> bool" where
  "is_quote c = (c = CHR 0x27 \<or> c = CHR 0x22)"

text \<open>
  The fragment of regular expressions that \<open>token_spec\<close> uses: a literal text, the word
  boundary \<open>\b\<close>, one character of a class, the greedy repetition \<open>+\<close> of a class,
  alternation and concatenation.
\<close>

datatype regex =
    Lit string
  | WordB
  | Cls "char \<Rightarrow> bool"
  | Plus "char \<Rightarrow> bool"
  | Alt regex regex
  | Seq regex regex

text \<open>
  A position in the text is the character before it (if any) and the text after it.
  \<open>at_boundary\<close> is \<open>\b\<close>: exactly one of the two neighbours is a word character.
\<close>

type_synonym pos = "char option \<times> string"

fun at_boundary :: "pos \<Rightarrow> bool" where
  "at_boundary (prev, rest) =
     ((case prev of None \<Rightarrow> False | Some c \<Rightarrow> is_word c)
      \<noteq> (case rest of [] \<Rightarrow> False | c # _ \<Rightarrow> is_word c))"

fun advance :: "pos \<Rightarrow> nat \<Rightarrow> pos" where
  "advance p 0 = p"
| "advance (prev, []) (Suc n) = (prev, [])"
| "advance (prev, c # cs) (Suc n) = advance (Some c, cs) n"

text \<open>
  \<open>matches r p\<close> lists the positions at which a match of \<open>r\<close> that starts at \<open>p\<close> can
  end, in the order in which the backtracking matcher tries them: the alternatives of
  \<open>|\<close> from left to right, the repetitions of \<open>+\<close> from the longest to the shortest.
\<close>

fun plus_ends :: "(char \<Rightarrow> bool) \<Rightarrow> pos \<Rightarrow> pos list" where
  "plus_ends P (prev, []) = []"
| "plus_ends P (prev, c # cs) = (if P c then plus_ends P (Some c, cs) @ [(Some c, cs)] else [])"

fun matches :: "regex \<Rightarrow> pos \<Rightarrow> pos list" where
  "matches (Lit s) (prev, rest) =
     (if take (length s) rest = s then [advance (prev, rest) (length s)] else [])"
| "matches WordB p = (if at_boundary p then [p] else [])"
| "matches (Cls P) (prev, rest) =
     (case rest of [] \<Rightarrow> [] | c # cs \<Rightarrow> if P c then [(Some c, cs)] else [])"
| "matches (Plus P) p = plus_ends P p"
| "matches (Alt a b) p = matches a p @ matches b p"
| "matches (Seq a b) p = concat (map (matches b) (matches a p))"

text \<open>The patterns of \<open>token_spec\<close>, in the order of the list in lexer.py.\<close>

definition word :: "string \<Rightarrow> regex" where
  \<comment> \<open>\<open>\bw\b\<close>\<close>
  "word w = Seq WordB (Seq (Lit w) WordB)"

fun alts :: "regex list \<Rightarrow> regex" where
  "alts [] = Lit []"
| "alts [r] = r"
| "alts (r # rs) = Alt r (alts rs)"

definition token_spec :: "(regex \<times> TokenType) list" where
  "token_spec =
    [ (word ''in'', MEMBERSHIP_OPERATOR),
      (Lit ''=>'', FAT_ARROW),
      (Lit '':'', COLON),
      (word ''or'', LOGICAL_OR),
      (word ''and'', LOGICAL_AND),
      (alts [Lit ''>'', Lit ''>='', Lit ''<'', Lit ''<='', Lit ''=='', Lit ''!=''],
         COMPARISON_OPERATOR),
      (alts [Lit ''*'', Lit ''/''], MULTIPLICATIVE_OPERATOR),
      (alts [Lit ''+'', Lit ''-''], ADDITIVE_OPERATOR),
      (Lit ''=='', EQUALITY),
      (Lit ''='', EQUALS),
      (Lit ''.'', DOT),
      (Lit '','', COMMA),
      (Lit ''['', OPENING_SQUARE_BRACKET),
      (Lit '']'', CLOSING_SQUARE_BRACKET),
      (Lit ''('', OPENING_PARENTHESIS),
      (Lit '')'', CLOSING_PARENTHESIS),
      (Lit ''{'', OPENING_CURLY_BRACKET),
      (Lit ''}'', CLOSING_CURLY_BRACKET),
      (word ''over'', OVER),
      (alts [word ''left join'', Seq WordB (Lit ''right join''), word ''join'',
             word ''union all'', word ''union''], JOINS),
      (alts [word ''let'', word ''distinct'', word ''where'', word ''group by'',
             word ''having'', word ''as'', word ''project'', word ''count'',
             word ''first'', word ''match'', word ''case'', word ''on'', word ''sum'',
             word ''partition by''], KEYWORD),
      (word ''null'', NULL),
      (Plus is_digit, NUMBER),
      (Seq (Cls is_quote) (Seq (Plus is_word) (Cls is_quote)), STRING),
      (Plus is_word, IDENTIFIER) ]"

section \<open>The lexer\<close>

text \<open>
  \<open>Lexer.__init__\<close> joins the rules into one alternation of named groups, so at a
  position the first rule of the list that matches gives the token and its kind
  (\<open>lastgroup\<close>).
\<close>

fun first_match :: "(regex \<times> TokenType) list \<Rightarrow> pos \<Rightarrow> (TokenType \<times> pos) option" where
  "first_match [] p = None"
| "first_match ((r, ty) # rules) p =
     (case matches r p of [] \<Rightarrow> first_match rules p | q # _ \<Rightarrow> Some (ty, q))"

text \<open>
  \<open>Lexer._lex\<close>: \<open>finditer\<close> scans from left to right. Where some rule matches, the
  matched text becomes a token and the scan goes on behind it; where none does, the
  character is skipped. (No rule of \<open>token_spec\<close> matches the empty text, see
  \<open>lex_from_token_spec\<close> below, so the last branch is never taken.)
\<close>

function lex_from :: "(regex \<times> TokenType) list \<Rightarrow> pos \<Rightarrow> Token list" where
  "lex_from rules (prev, []) = []"
| "lex_from rules (prev, c # cs) =
     (case first_match rules (prev, c # cs) of
        None \<Rightarrow> lex_from rules (Some c, cs)
      | Some (ty, (prev', rest')) \<Rightarrow>
          if length rest' < length (c # cs)
          then Token ty (take (length (c # cs) - length rest') (c # cs))
                 # lex_from rules (prev', rest')
          else lex_from rules (Some c, cs))"
  by pat_completeness auto
termination
  by (relation "measure (\<lambda>(rules, p). length (snd p))") auto

definition lex :: "string \<Rightarrow> Token list" where
  "lex target = lex_from token_spec (None, target)"

subsection \<open>Every rule consumes a character\<close>

text \<open>
  \<open>consuming r\<close> is a syntactic test that \<open>r\<close> cannot match the empty text. It holds
  for every rule of \<open>token_spec\<close>, so every match moves the scan forward and the
  branch of \<open>lex_from\<close> for an empty match is never taken.
\<close>

fun consuming :: "regex \<Rightarrow> bool" where
  "consuming (Lit s) = (s \<noteq> [])"
| "consuming WordB = False"
| "consuming (Cls P) = True"
| "consuming (Plus P) = True"
| "consuming (Alt a b) = (consuming a \<and> consuming b)"
| "consuming (Seq a b) = (consuming a \<or> consuming b)"

lemma advance_length: "length (snd (advance p n)) = length (snd p) - n"
  by (induction p n rule: advance.induct) auto

lemma plus_ends_shorter: "q \<in> set (plus_ends P p) \<Longrightarrow> length (snd q) < length (snd p)"
  by (induction P p rule: plus_ends.induct) (auto split: if_splits)

lemma matches_not_longer: "q \<in> set (matches r p) \<Longrightarrow> length (snd q) \<le> length (snd p)"
proof (induction r arbitrary: p q)
  case (Lit s)
  then show ?case by (cases p) (auto simp: advance_length split: if_splits)
next
  case WordB
  then show ?case by (auto split: if_splits)
next
  case (Cls P)
  then show ?case by (cases p) (auto split: list.splits if_splits)
next
  case (Plus P)
  then show ?case using plus_ends_shorter [of q P p] by simp
next
  case (Alt a b)
  from Alt.prems have "q \<in> set (matches a p) \<or> q \<in> set (matches b p)" by simp
  then show ?case using Alt.IH by blast
next
  case (Seq a b)
  then obtain p' where "p' \<in> set (matches a p)" "q \<in> set (matches b p')" by auto
  then show ?case using Seq.IH(1) [of p' p] Seq.IH(2) [of q p'] by simp
qed

lemma matches_shorter:
  "consuming r \<Longrightarrow> q \<in> set (matches r p) \<Longrightarrow> length (snd q) < length (snd p)"
proof (induction r arbitrary: p q)
  case (Lit s)
  obtain prev rest where p: "p = (prev, rest)" by (cases p)
  with Lit have "take (length s) rest = s" "s \<noteq> []" "q = advance (prev, rest) (length s)"
    by (auto split: if_splits)
  moreover have "length s \<le> length rest"
  proof -
    have "length (take (length s) rest) = length s"
      using \<open>take (length s) rest = s\<close> by simp
    then show ?thesis by simp
  qed
  moreover from \<open>s \<noteq> []\<close> have "0 < length s" by simp
  ultimately have "length rest - length s < length rest" by arith
  with \<open>q = advance (prev, rest) (length s)\<close> show ?case by (simp add: p advance_length)
next
  case WordB
  then show ?case by simp
next
  case (Cls P)
  then show ?case by (cases p) (auto split: list.splits if_splits)
next
  case (Plus P)
  then show ?case using plus_ends_shorter [of q P p] by simp
next
  case (Alt a b)
  from Alt.prems have "consuming a" "consuming b"
    and "q \<in> set (matches a p) \<or> q \<in> set (matches b p)" by simp_all
  then show ?case using Alt.IH by blast
next
  case (Seq a b)
  from Seq.prems obtain p' where p': "p' \<in> set (matches a p)" "q \<in> set (matches b p')" by auto
  from Seq.prems(1) have "consuming a \<or> consuming b" by simp
  then show ?case
  proof
    assume "consuming a"
    then have "length (snd p') < length (snd p)" using Seq.IH(1) p'(1) by blast
    moreover have "length (snd q) \<le> length (snd p')" using matches_not_longer p'(2) by blast
    ultimately show ?thesis by simp
  next
    assume "consuming b"
    then have "length (snd q) < length (snd p')" using Seq.IH(2) p'(2) by blast
    moreover have "length (snd p') \<le> length (snd p)" using matches_not_longer p'(1) by blast
    ultimately show ?thesis by simp
  qed
qed

lemma first_match_shorter:
  "list_all (\<lambda>rule. consuming (fst rule)) rules \<Longrightarrow> first_match rules p = Some (ty, q)
   \<Longrightarrow> length (snd q) < length (snd p)"
proof (induction rules)
  case Nil
  then show ?case by simp
next
  case (Cons rule rules)
  obtain r ty' where rule: "rule = (r, ty')" by (cases rule)
  show ?case
  proof (cases "matches r p")
    case Nil
    with Cons rule show ?thesis by simp
  next
    case (Cons q' qs)
    with Cons.prems rule have "q = q'" "consuming r" by simp_all
    moreover from Cons have "q' \<in> set (matches r p)" by simp
    ultimately show ?thesis using matches_shorter by blast
  qed
qed

lemma token_spec_consuming: "list_all (\<lambda>rule. consuming (fst rule)) token_spec"
  by (simp add: token_spec_def word_def)

lemma first_match_token_spec_shorter:
  "first_match token_spec p = Some (ty, q) \<Longrightarrow> length (snd q) < length (snd p)"
  using token_spec_consuming by (rule first_match_shorter)

lemma lex_from_token_spec:
  "lex_from token_spec (prev, c # cs) =
     (case first_match token_spec (prev, c # cs) of
        None \<Rightarrow> lex_from token_spec (Some c, cs)
      | Some (ty, (prev', rest')) \<Rightarrow>
          Token ty (take (length (c # cs) - length rest') (c # cs))
            # lex_from token_spec (prev', rest'))"
  using first_match_token_spec_shorter [of "(prev, c # cs)"]
  by (auto split: option.splits)

section \<open>Python values and the operations the code applies to them\<close>

text \<open>
  The parser builds every AST node as a \<open>dict\<close> with a \<open>"type"\<close> entry, and the
  transformer reads the nodes back by key. The model keeps that representation: a value is
  \<open>None\<close>, an \<open>int\<close>, a \<open>str\<close>, a \<open>list\<close> or a \<open>dict\<close> with \<open>str\<close> keys in
  insertion order (the order matters to \<open>dict.values()\<close> and to \<open>repr\<close>).
\<close>

datatype pyval =
    PNone
  | PInt int
  | PStr string
  | PList "pyval list"
  | PDict "(string \<times> pyval) list"

text \<open>The exceptions that the code can raise, as values.\<close>

datatype error =
    SyntaxError TokenType
  | EOFError
  | AttributeError
  | KeyError
  | IndexError
  | TypeError
  | ValueError

definition bind :: "error + 'a \<Rightarrow> ('a \<Rightarrow> error + 'b) \<Rightarrow> error + 'b" where
  "bind m f = (case m of Inl e \<Rightarrow> Inl e | Inr x \<Rightarrow> f x)"

lemma bind_simps [simp]: "bind (Inr x) f = f x" "bind (Inl e) f = Inl e"
  by (simp_all add: bind_def)

fun mapM :: "('a \<Rightarrow> error + 'b) \<Rightarrow> 'a list \<Rightarrow> error + 'b list" where
  "mapM f [] = Inr []"
| "mapM f (x # xs) = bind (f x) (\<lambda>y. bind (mapM f xs) (\<lambda>ys. Inr (y # ys)))"

text \<open>\<open>expr["key"]\<close> with a string key.\<close>

fun getitem :: "pyval \<Rightarrow> string \<Rightarrow> error + pyval" where
  "getitem (PDict kvs) k = (case map_of kvs k of None \<Rightarrow> Inl KeyError | Some v \<Rightarrow> Inr v)"
| "getitem _ k = Inl TypeError"

text \<open>\<open>xs[i]\<close> with a non-negative integer literal \<open>i\<close> (no key of a node is an integer).\<close>

fun getindex :: "pyval \<Rightarrow> nat \<Rightarrow> error + pyval" where
  "getindex (PList xs) i = (if i < length xs then Inr (xs ! i) else Inl IndexError)"
| "getindex (PStr s) i = (if i < length s then Inr (PStr [s ! i]) else Inl IndexError)"
| "getindex (PDict kvs) i = Inl KeyError"
| "getindex _ i = Inl TypeError"

text \<open>\<open>len(x)\<close>, \<open>for item in x\<close>, \<open>x.values()\<close>, \<open>x.get(key)\<close>, \<open>bool(x)\<close>.\<close>

fun py_len :: "pyval \<Rightarrow> error + nat" where
  "py_len (PList xs) = Inr (length xs)"
| "py_len (PStr s) = Inr (length s)"
| "py_len (PDict kvs) = Inr (length kvs)"
| "py_len _ = Inl TypeError"

fun py_iter :: "pyval \<Rightarrow> error + pyval list" where
  "py_iter (PList xs) = Inr xs"
| "py_iter (PStr s) = Inr (map (\<lambda>c. PStr [c]) s)"
| "py_iter (PDict kvs) = Inr (map (\<lambda>kv. PStr (fst kv)) kvs)"
| "py_iter _ = Inl TypeError"

fun py_values :: "pyval \<Rightarrow> error + pyval list" where
  "py_values (PDict kvs) = Inr (map snd kvs)"
| "py_values _ = Inl AttributeError"

fun py_get :: "pyval \<Rightarrow> string \<Rightarrow> error + pyval" where
  "py_get (PDict kvs) k = (case map_of kvs k of None \<Rightarrow> Inr PNone | Some v \<Rightarrow> Inr v)"
| "py_get _ k = Inl AttributeError"

fun truthy :: "pyval \<Rightarrow> bool" where
  "truthy PNone = False"
| "truthy (PInt i) = (i \<noteq> 0)"
| "truthy (PStr s) = (s \<noteq> [])"
| "truthy (PList xs) = (xs \<noteq> [])"
| "truthy (PDict kvs) = (kvs \<noteq> [])"

text \<open>\<open>sub in s\<close> on strings, and \<open>key in x\<close> for a string \<open>key\<close>.\<close>

fun is_substring :: "string \<Rightarrow> string \<Rightarrow> bool" where
  "is_substring sub [] = (sub = [])"
| "is_substring sub (c # cs) = (take (length sub) (c # cs) = sub \<or> is_substring sub cs)"

fun py_contains :: "string \<Rightarrow> pyval \<Rightarrow> error + bool" where
  "py_contains k (PDict kvs) = Inr (k \<in> set (map fst kvs))"
| "py_contains k (PStr s) = Inr (is_substring k s)"
| "py_contains k (PList xs) = Inr (PStr k \<in> set xs)"
| "py_contains k _ = Inl TypeError"

subsection \<open>\<open>str\<close> and \<open>repr\<close>\<close>

definition digit_char :: "nat \<Rightarrow> char" where
  "digit_char d = ''0123456789abcdef'' ! d"

fun str_nat :: "nat \<Rightarrow> string" where
  "str_nat n = (if n < 10 then [digit_char n] else str_nat (n div 10) @ [digit_char (n mod 10)])"

declare str_nat.simps [simp del]

definition str_int :: "int \<Rightarrow> string" where
  "str_int i = (if i < 0 then CHR ''-'' # str_nat (nat (- i)) else str_nat (nat i))"

text \<open>
  \<open>repr\<close> of a \<open>str\<close>: single quotes, unless the text has a single quote and no double
  quote; the quote and the backslash are escaped, and so are the code points that are not
  printable.
\<close>

definition printable :: "char \<Rightarrow> bool" where
  "printable c = (let n = code_point c in (32 \<le> n \<and> n < 127) \<or> (161 \<le> n \<and> n \<noteq> 173))"

definition repr_char :: "char \<Rightarrow> char \<Rightarrow> string" where
  "repr_char q c =
     (if c = q \<or> c = CHR 0x5C then [CHR 0x5C, c]
      else if c = CHR 0x09 then [CHR 0x5C, CHR ''t'']
      else if c = CHR 0x0A then [CHR 0x5C, CHR ''n'']
      else if c = CHR 0x0D then [CHR 0x5C, CHR ''r'']
      else if printable c then [c]
      else [CHR 0x5C, CHR ''x'', digit_char (code_point c div 16), digit_char (code_point c mod 16)])"

definition repr_str :: "string \<Rightarrow> string" where
  "repr_str s =
     (let q = (if CHR 0x27 \<in> set s \<and> CHR 0x22 \<notin> set s then CHR 0x22 else CHR 0x27)
      in [q] @ concat (map (repr_char q) s) @ [q])"

fun join :: "string \<Rightarrow> string list \<Rightarrow> string" where
  "join sep [] = []"
| "join sep [x] = x"
| "join sep (x # xs) = x @ sep @ join sep xs"

fun py_repr :: "pyval \<Rightarrow> string" where
  "py_repr PNone = ''None''"
| "py_repr (PInt i) = str_int i"
| "py_repr (PStr s) = repr_str s"
| "py_repr (PList xs) = ''['' @ join '', '' (map py_repr xs) @ '']''"
| "py_repr (PDict kvs) =
     ''{'' @ join '', '' (map (\<lambda>kv. repr_str (fst kv) @ '': '' @ py_repr (snd kv)) kvs) @ ''}''"

text \<open>\<open>str(x)\<close>, which is also what \<open>f"{x}"\<close> inserts.\<close>

fun py_str :: "pyval \<Rightarrow> string" where
  "py_str (PStr s) = s"
| "py_str v = py_repr v"

text \<open>\<open>sep.join(items)\<close>: a \<open>TypeError\<close> unless every item is a \<open>str\<close>.\<close>

fun as_str :: "pyval \<Rightarrow> error + string" where
  "as_str (PStr s) = Inr s"
| "as_str _ = Inl TypeError"

definition str_join :: "string \<Rightarrow> pyval list \<Rightarrow> error + string" where
  "str_join sep items = bind (mapM as_str items) (\<lambda>ss. Inr (join sep ss))"

text \<open>\<open>s.split(".")\<close>, and \<open>x.split(".")\<close> on any value.\<close>

fun split_on :: "char \<Rightarrow> string \<Rightarrow> string list" where
  "split_on d [] = [[]]"
| "split_on d (c # cs) =
     (if c = d then [] # split_on d cs
      else (case split_on d cs of [] \<Rightarrow> [[c]] | w # ws \<Rightarrow> (c # w) # ws))"

fun py_split :: "pyval \<Rightarrow> error + string list" where
  "py_split (PStr s) = Inr (split_on CHR ''.'' s)"
| "py_split _ = Inl AttributeError"

section \<open>The code generator (transformer.py)\<close>

definition sq :: string where
  \<comment> \<open>a single quote\<close>
  "sq = [CHR 0x27]"

definition dq :: string where
  \<comment> \<open>a double quote\<close>
  "dq = [CHR 0x22]"

definition nl :: string where
  \<comment> \<open>a newline\<close>
  "nl = [CHR 0x0A]"

lemma bind_cong [fundef_cong]:
  "m = m' \<Longrightarrow> (\<And>x. m' = Inr x \<Longrightarrow> f x = f' x) \<Longrightarrow> bind m f = bind m' f'"
  by (cases m') (simp_all add: bind_def)

lemma mapM_cong [fundef_cong]:
  "xs = ys \<Longrightarrow> (\<And>x. x \<in> set ys \<Longrightarrow> f x = g x) \<Longrightarrow> mapM f xs = mapM g ys"
  by (induction ys arbitrary: xs) (auto cong: bind_cong)

text \<open>
  A loop that returns the first result that is true, and \<open>None\<close> after the last item:
  the shape of both loops of \<open>get_source_table\<close>.
\<close>

fun first_truthy :: "(pyval \<Rightarrow> error + pyval) \<Rightarrow> pyval list \<Rightarrow> error + pyval" where
  "first_truthy f [] = Inr PNone"
| "first_truthy f (x # xs) =
     bind (f x) (\<lambda>res. if truthy res then Inr res else first_truthy f xs)"

lemma first_truthy_cong [fundef_cong]:
  "xs = ys \<Longrightarrow> (\<And>x. x \<in> set ys \<Longrightarrow> f x = g x) \<Longrightarrow> first_truthy f xs = first_truthy g ys"
proof (induction ys arbitrary: xs)
  case Nil
  then show ?case by simp
next
  case (Cons y ys)
  have tl: "first_truthy f ys = first_truthy g ys"
    by (rule Cons.IH) (simp_all add: Cons.prems)
  have hd: "f y = g y" by (simp add: Cons.prems)
  show ?case unfolding Cons.prems(1) first_truthy.simps tl hd ..
qed

lemma size_map_of:
  "map_of kvs k = Some v \<Longrightarrow> size v < size_list (size_prod (\<lambda>x. 0) size) kvs"
  by (induction kvs) (auto split: if_splits)

lemma size_getitem [termination_simp]: "getitem e k = Inr v \<Longrightarrow> size v < size e"
  by (cases e) (auto split: option.splits dest: size_map_of)

lemma size_member: "x \<in> set xs \<Longrightarrow> size x < Suc (size_list size xs)"
  by (induction xs) auto

lemma size_nth: "i < length xs \<Longrightarrow> size (xs ! i) < Suc (size_list size xs)"
  by (rule size_member) simp

lemma size_getindex [termination_simp]: "getindex e i = Inr v \<Longrightarrow> size v \<le> size e"
  by (cases e) (auto split: if_splits dest: size_nth less_imp_le)

lemma size_py_iter [termination_simp]: "py_iter e = Inr xs \<Longrightarrow> x \<in> set xs \<Longrightarrow> size x \<le> size e"
  by (cases e) (auto dest: size_member less_imp_le)

lemma size_py_values [termination_simp]:
  "py_values e = Inr xs \<Longrightarrow> x \<in> set xs \<Longrightarrow> size x < size e"
proof (cases e)
  case (PDict kvs)
  assume "py_values e = Inr xs" and "x \<in> set xs"
  with PDict obtain k where "(k, x) \<in> set kvs" by auto
  then have "size x < Suc (size_list (size_prod (\<lambda>x. 0) size) kvs)"
    by (induction kvs) auto
  with PDict show ?thesis by simp
qed auto

subsection \<open>Source-table discovery\<close>

function get_source_table :: "pyval \<Rightarrow> error + pyval" where
  "get_source_table expr =
     bind (py_contains ''source_table'' expr) (\<lambda>found.
       if found then getitem expr ''source_table''
       else bind (py_values expr) (\<lambda>vals.
         first_truthy (\<lambda>val.
           case val of
             PDict kvs \<Rightarrow> get_source_table val
           | PList items \<Rightarrow> first_truthy get_source_table items
           | _ \<Rightarrow> Inr PNone) vals))"
  by pat_completeness auto
termination
proof (relation "measure size")
  show "wf (measure size)" by simp
next
  fix expr found vals val kvs
  assume "py_values expr = Inr vals" "val \<in> set vals"
  then show "(val, expr) \<in> measure size" by (simp add: size_py_values)
next
  fix expr found vals val items x
  assume vals: "py_values expr = Inr vals" "val \<in> set vals"
    and items: "val = PList items" "x \<in> set items"
  have "size val < size expr" by (rule size_py_values [OF vals])
  moreover have "size x < size val" using size_member [OF items(2)] by (simp add: items(1))
  ultimately show "(x, expr) \<in> measure size" by simp
qed

declare get_source_table.simps [simp del]

subsection \<open>Expressions\<close>

definition create_operator :: "pyval \<Rightarrow> pyval" where
  "create_operator operator =
     (if operator = PStr ''and'' then PStr ''&''
      else if operator = PStr ''or'' then PStr ''|''
      else operator)"

definition create_literal :: "pyval \<Rightarrow> error + pyval" where
  "create_literal expr =
     bind (getitem expr ''type'') (\<lambda>ty.
       if ty = PStr ''StringLiteral''
       then bind (getitem expr ''value'') (\<lambda>v. Inr (PStr (dq @ py_str v @ dq)))
       else if ty = PStr ''NumericLiteral'' then getitem expr ''value''
       else if ty = PStr ''BooleanLiteral'' then getitem expr ''value''
       else Inr PNone)"

definition create_array_expression :: "pyval \<Rightarrow> error + pyval" where
  "create_array_expression expr =
     bind (getitem expr ''body'') (\<lambda>body.
     bind (py_iter body) (\<lambda>items.
     bind (mapM (\<lambda>item. bind (getitem item ''value'') (\<lambda>v. Inr (PStr (py_str v)))) items)
       (\<lambda>texts. Inr (PStr (py_repr (PList texts))))))"

definition create_identifier_expression :: "pyval \<Rightarrow> error + pyval" where
  "create_identifier_expression expr =
     bind (getitem expr ''value'') (\<lambda>v.
     bind (py_split v) (\<lambda>val.
       if length val = 1 then Inr v
       else Inr (PStr (hd val @ ''['' @ sq @ join ''.'' (tl val) @ sq @ '']''))))"

function
  create_join :: "pyval \<Rightarrow> error + pyval" and
  create_expression :: "pyval \<Rightarrow> error + pyval" and
  create_union_expression :: "pyval \<Rightarrow> error + pyval" and
  create_match_expression :: "pyval \<Rightarrow> error + pyval" and
  create_case_expression :: "pyval \<Rightarrow> error + pyval" and
  create_membership_expression :: "pyval \<Rightarrow> error + pyval" and
  create_functional_expression :: "pyval \<Rightarrow> error + pyval" and
  create_parenthesized_expression :: "pyval \<Rightarrow> error + pyval" and
  create_binary_expression :: "pyval \<Rightarrow> error + pyval"
where
  "create_join join_node =
     bind (getitem join_node ''left'') (\<lambda>l.
     bind (getitem l ''type'') (\<lambda>lty.
       if lty = PStr ''JoinExpression'' \<or> lty = PStr ''UnionExpression''
       then
         bind (if lty = PStr ''JoinExpression'' then create_join l
               else create_union_expression l) (\<lambda>left.
         bind (getitem join_node ''right'') (\<lambda>r.
         bind (getitem r ''value'') (\<lambda>rv.
         bind (getitem join_node ''condition'') (\<lambda>c.
         bind (create_expression c) (\<lambda>cond.
         bind (getitem join_node ''join_type'') (\<lambda>jt.
           Inr (PStr (py_str left @ ''.join('' @ py_str rv @ '', on='' @ py_str cond
                      @ '', how='' @ dq @ py_str jt @ dq @ '')''))))))))
       else
         bind (getitem l ''value'') (\<lambda>lv.
         bind (getitem join_node ''right'') (\<lambda>r.
         bind (getitem r ''value'') (\<lambda>rv.
         bind (getitem join_node ''condition'') (\<lambda>c.
         bind (create_expression c) (\<lambda>cond.
         bind (getitem join_node ''join_type'') (\<lambda>jt.
           Inr (PStr (py_str lv @ ''.join('' @ py_str rv @ '', on='' @ py_str cond
                      @ '', how='' @ dq @ py_str jt @ dq @ '')''))))))))))"
| "create_expression expr =
     bind (getitem expr ''type'') (\<lambda>ty.
       if ty = PStr ''MembershipExpression'' then create_membership_expression expr
       else if ty = PStr ''BinaryExpression'' then create_binary_expression expr
       else if ty = PStr ''ParenthesizedExpression'' then create_parenthesized_expression expr
       else if ty = PStr ''FunctionalExpression'' then create_functional_expression expr
       else if ty = PStr ''IdentifierExpression'' then create_identifier_expression expr
       else if ty = PStr ''ArrayExpression'' then create_array_expression expr
       else if ty = PStr ''MatchExpression'' then create_match_expression expr
       else if ty = PStr ''CaseExpression'' then create_case_expression expr
       else if ty = PStr ''UnionExpression'' then create_union_expression expr
       else if ty = PStr ''JoinExpression'' then create_join expr
       else create_literal expr)"
| "create_union_expression expr =
     bind (getitem expr ''left'') (\<lambda>l.
     bind (create_expression l) (\<lambda>left.
     bind (getitem expr ''right'') (\<lambda>r.
     bind (create_expression r) (\<lambda>right.
       Inr (PStr (nl @ py_str left @ ''.union('' @ py_str right @ '')'' @ nl))))))"
| "create_match_expression expr =
     bind (getitem expr ''body'') (\<lambda>body.
     bind (py_iter body) (\<lambda>items.
     bind (mapM create_expression items) (\<lambda>cases.
     bind (str_join (nl @ ''.'') cases) (\<lambda>joined_cases.
       Inr (PStr joined_cases)))))"
| "create_case_expression expr =
     bind (getitem expr ''conditions'') (\<lambda>c.
     bind (getitem c ''type'') (\<lambda>cty.
     bind (if cty = PStr ''IdentifierExpression''
           then bind (getitem c ''value'') (\<lambda>cv. Inr (cv = PStr ''_''))
           else Inr False) (\<lambda>is_default.
       if is_default
       then
         bind (getitem expr ''value'') (\<lambda>v.
         bind (create_expression v) (\<lambda>val.
           Inr (PStr (''otherwise('' @ py_str val @ '')''))))
       else
         bind (create_expression c) (\<lambda>cond.
         bind (getitem expr ''value'') (\<lambda>v.
         bind (create_expression v) (\<lambda>val.
           Inr (PStr (''when('' @ nl @ py_str cond @ '', '' @ py_str val @ nl @ '')''))))))))"
| "create_membership_expression expr =
     bind (getitem expr ''left'') (\<lambda>l.
     bind (create_expression l) (\<lambda>left.
     bind (getitem expr ''right'') (\<lambda>r.
     bind (create_expression r) (\<lambda>right.
       Inr (PStr (py_str left @ ''.isin('' @ py_str right @ '')''))))))"
| "create_functional_expression expr =
     bind (getitem expr ''name'') (\<lambda>name.
     bind (getitem expr ''args'') (\<lambda>a.
     bind (py_iter a) (\<lambda>args.
     bind (mapM create_expression args) (\<lambda>rendered.
     bind (str_join '','' rendered) (\<lambda>joined.
       Inr (PStr (py_str name @ ''('' @ joined @ '')'')))))))"
| "create_parenthesized_expression expr =
     bind (getitem expr ''body'') (\<lambda>b.
     bind (create_expression b) (\<lambda>body.
       Inr (PStr (''('' @ py_str body @ '')''))))"
| "create_binary_expression expr =
     bind (getitem expr ''left'') (\<lambda>l.
     bind (create_expression l) (\<lambda>left.
     bind (getitem expr ''right'') (\<lambda>r.
     bind (create_expression r) (\<lambda>right.
     bind (getitem expr ''operator'') (\<lambda>operator.
       if operator = PStr ''!='' \<and> \<not> truthy right
       then Inr (PStr (py_str left @ ''.isNotNull()''))
       else
         let left_paren = (if operator = PStr ''and'' \<or> operator = PStr ''or'' then ''('' else []);
             right_paren = (if operator = PStr ''and'' \<or> operator = PStr ''or'' then '')'' else [])
         in Inr (PStr (left_paren @ py_str left @ right_paren @ '' ''
                       @ py_str (create_operator operator) @ '' ''
                       @ left_paren @ py_str right @ right_paren)))))))"
  by pat_completeness auto
termination
proof (relation "measure (\<lambda>x. case x of
          Inl (Inl (Inl e)) \<Rightarrow> 2 * size e
        | Inl (Inl (Inr e)) \<Rightarrow> 2 * size e + 1
        | Inl (Inr (Inl e)) \<Rightarrow> 2 * size e
        | Inl (Inr (Inr e)) \<Rightarrow> 2 * size e
        | Inr (Inl (Inl e)) \<Rightarrow> 2 * size e
        | Inr (Inl (Inr e)) \<Rightarrow> 2 * size e
        | Inr (Inr (Inl e)) \<Rightarrow> 2 * size e
        | Inr (Inr (Inr (Inl e))) \<Rightarrow> 2 * size e
        | Inr (Inr (Inr (Inr e))) \<Rightarrow> 2 * size e)", goal_cases)
  case 1
  show ?case by simp
qed (auto dest!: size_getitem dest: size_py_iter)

declare
  create_join.simps [simp del]
  create_expression.simps [simp del]
  create_union_expression.simps [simp del]
  create_match_expression.simps [simp del]
  create_case_expression.simps [simp del]
  create_membership_expression.simps [simp del]
  create_functional_expression.simps [simp del]
  create_parenthesized_expression.simps [simp del]
  create_binary_expression.simps [simp del]

subsection \<open>Blocks, assignments and the entry point\<close>

definition create_column_assignment_list :: "pyval \<Rightarrow> error + pyval" where
  "create_column_assignment_list expr =
     bind (getitem expr ''body'') (\<lambda>body.
     bind (py_iter body) (\<lambda>items.
     bind (mapM create_expression items) (\<lambda>rendered.
     bind (str_join '','' rendered) (\<lambda>joined. Inr (PStr joined)))))"

definition create_filter :: "pyval \<Rightarrow> error + pyval" where
  "create_filter expr =
     bind (getitem expr ''value'') (\<lambda>v.
       if v = PStr ''where''
       then bind (getitem expr ''body'') (\<lambda>b. bind (create_expression b) (\<lambda>body.
              Inr (PStr (''filter('' @ py_str body @ '')''))))
       else if v = PStr ''having''
       then bind (getitem expr ''body'') (\<lambda>b. bind (create_expression b) (\<lambda>body.
              Inr (PStr (''agg('' @ py_str body @ '')''))))
       else if v = PStr ''group by''
       then bind (getitem expr ''body'') (\<lambda>b. bind (create_column_assignment_list b) (\<lambda>body.
              Inr (PStr (''groupBy('' @ py_str body @ '')''))))
       else Inr PNone)"

text \<open>
  One turn of the loop over \<open>col_assignments\<close>: the f-string evaluates
  \<open>col_assignment['value']\<close>, renders it, and then reads
  \<open>col_assignment['name']['value']\<close>.
\<close>

definition create_assignment :: "pyval \<Rightarrow> error + pyval" where
  "create_assignment col_assignment =
     bind (getitem col_assignment ''value'') (\<lambda>v.
     bind (create_expression v) (\<lambda>rendered.
     bind (getitem col_assignment ''name'') (\<lambda>name.
     bind (getitem name ''value'') (\<lambda>alias.
       Inr (PStr (py_str rendered @ ''.alias('' @ sq @ py_str alias @ sq @ '')''))))))"

definition create_block_statement :: "pyval \<Rightarrow> error + pyval" where
  "create_block_statement stmt =
     bind (getitem stmt ''body'') (\<lambda>body.
     bind (getindex body 0) (\<lambda>first.
     bind (getitem first ''body'') (\<lambda>col_assignments.
     bind (getindex col_assignments 0) (\<lambda>first_assignment.
     bind (get_source_table first_assignment) (\<lambda>source_table.
     bind (py_iter col_assignments) (\<lambda>items.
     bind (mapM create_assignment items) (\<lambda>assignments.
     bind (py_len body) (\<lambda>n.
     bind (if n > 1
           then bind (getindex body 1) (\<lambda>second. getitem second ''body'')
           else Inr (PList [])) (\<lambda>filters.
     bind (py_iter filters) (\<lambda>filter_items.
     bind (mapM create_filter filter_items) (\<lambda>filter_stmts.
     bind (str_join ('','' @ nl) assignments) (\<lambda>joined_assignments.
     bind (str_join (nl @ ''.'') filter_stmts) (\<lambda>joined_filters.
     let res = py_str source_table @ ''.select('' @ nl @ joined_assignments @ nl @ '')'';
         res = (if joined_filters \<noteq> [] then res @ nl @ ''.'' @ joined_filters else res)
     in bind (py_get stmt ''modifier'') (\<lambda>modifier.
          if truthy modifier
          then Inr (PStr (res @ ''.'' @ nl @ py_str modifier @ ''()''))
          else Inr (PStr res)))))))))))))))"

definition create_project_expression :: "pyval \<Rightarrow> error + pyval" where
  "create_project_expression expr =
     bind (getitem expr ''body'') create_block_statement"

definition create_variable_assignment :: "pyval \<Rightarrow> error + pyval" where
  "create_variable_assignment item =
     bind (getitem item ''value'') (\<lambda>v.
     bind (getitem v ''type'') (\<lambda>ty.
     bind (if ty = PStr ''BlockStatement'' then create_block_statement v
           else if ty = PStr ''ProjectExpression'' then create_project_expression v
           else create_expression v) (\<lambda>body.
     bind (getitem item ''name'') (\<lambda>name.
       Inr (PStr (py_str name @ '' = ('' @ nl @ py_str body @ nl
                  @ ''.alias('' @ sq @ py_str name @ sq @ '')'' @ nl @ '')'' @ nl))))))"

text \<open>One turn of the loop of \<open>transform\<close>: what it appends to \<open>res\<close>.\<close>

definition transform_item :: "pyval \<Rightarrow> error + pyval list" where
  "transform_item item =
     bind (getitem item ''type'') (\<lambda>ty.
     bind (if ty = PStr ''VariableAssignment''
           then bind (create_variable_assignment item) (\<lambda>r. Inr [r])
           else Inr []) (\<lambda>first.
     bind (if ty = PStr ''ProjectExpression''
           then bind (create_project_expression item) (\<lambda>r. Inr [r])
           else Inr []) (\<lambda>second.
       Inr (first @ second))))"

definition transform :: "pyval \<Rightarrow> error + string" where
  "transform ast =
     bind (getitem ast ''body'') (\<lambda>body.
     bind (py_iter body) (\<lambda>items.
     bind (mapM transform_item items) (\<lambda>res.
       str_join nl (concat res))))"

section \<open>The parser (parser.py)\<close>

text \<open>
  The parser pulls the tokens one by one and keeps the current one in \<open>_lookahead\<close>,
  which is \<open>None\<close> once the lexer is exhausted. Its state is therefore the list of the
  tokens not yet consumed: the head is \<open>_lookahead\<close>, and the empty list is the state in
  which \<open>_lookahead\<close> is \<open>None\<close>.

  A parsing method either returns a value and the new state, or raises. The methods that
  call each other recursively take a fuel argument in addition, which bounds the depth of
  the calls and the number of turns of a loop; \<open>None\<close> means that the fuel ran out.
\<close>

type_synonym pstate = "Token list"

type_synonym 'a presult = "(error + 'a \<times> pstate) option"

definition ret :: "'a \<Rightarrow> pstate \<Rightarrow> 'a presult" where
  "ret x s = Some (Inr (x, s))"

definition raise :: "error \<Rightarrow> 'a presult" where
  "raise e = Some (Inl e)"

definition pbind :: "'a presult \<Rightarrow> ('a \<Rightarrow> pstate \<Rightarrow> 'b presult) \<Rightarrow> 'b presult" where
  "pbind m f =
     (case m of None \<Rightarrow> None | Some (Inl e) \<Rightarrow> Some (Inl e) | Some (Inr (x, s)) \<Rightarrow> f x s)"

text \<open>
  \<open>peek\<close> is a read of an attribute of \<open>self._lookahead\<close>: an \<open>AttributeError\<close> when
  it is \<open>None\<close>. \<open>la_is\<close> is the guarded test
  \<open>self._lookahead and self._lookahead.type == token_type\<close>.
\<close>

definition peek :: "pstate \<Rightarrow> Token presult" where
  "peek s = (case s of [] \<Rightarrow> raise AttributeError | t # _ \<Rightarrow> ret t s)"

definition la_is :: "TokenType \<Rightarrow> pstate \<Rightarrow> bool" where
  "la_is token_type s = (case s of [] \<Rightarrow> False | t # _ \<Rightarrow> tok_type t = token_type)"

text \<open>
  \<open>Parser._consume\<close>. The kind of the lookahead is read first, the test for an absent
  lookahead comes second.
\<close>

definition consume :: "TokenType \<Rightarrow> pstate \<Rightarrow> Token presult" where
  "consume token_type s =
     pbind (peek s) (\<lambda>t s.
       if tok_type t \<noteq> token_type then raise (SyntaxError token_type)
       else if s = [] then raise EOFError
       else ret t (tl s))"

subsection \<open>Literals, identifiers and arrays\<close>

text \<open>
  \<open>int(value)\<close> on the text of a \<open>NUMBER\<close> token, which is a run of digits; any other
  text is mapped to \<open>ValueError\<close>.
\<close>

definition py_int :: "string \<Rightarrow> error + int" where
  "py_int s =
     (if s \<noteq> [] \<and> list_all is_digit s
      then Inr (foldl (\<lambda>a c. 10 * a + (int (code_point c) - 48)) 0 s)
      else Inl ValueError)"

text \<open>
  \<open>re.search(r"""[^'"]+""", value).group()\<close>: the first run of characters that are not
  quotes; without one, \<open>search\<close> returns \<open>None\<close> and \<open>.group()\<close> raises.
\<close>

definition unquote :: "string \<Rightarrow> error + string" where
  "unquote s =
     (let run = takeWhile (\<lambda>c. \<not> is_quote c) (dropWhile is_quote s)
      in if run = [] then Inl AttributeError else Inr run)"

definition string_literal :: "pstate \<Rightarrow> pyval presult" where
  "string_literal s =
     pbind (consume STRING s) (\<lambda>t s.
       case unquote (tok_value t) of
         Inl e \<Rightarrow> raise e
       | Inr v \<Rightarrow> ret (PDict [(''type'', PStr ''StringLiteral''), (''value'', PStr v)]) s)"

definition numeric_literal :: "pstate \<Rightarrow> pyval presult" where
  "numeric_literal s =
     pbind (consume NUMBER s) (\<lambda>t s.
       case py_int (tok_value t) of
         Inl e \<Rightarrow> raise e
       | Inr i \<Rightarrow> ret (PDict [(''type'', PStr ''NumericLiteral''), (''value'', PInt i)]) s)"

definition null_literal :: "pstate \<Rightarrow> pyval presult" where
  "null_literal s =
     pbind (consume NULL s) (\<lambda>t s.
       ret (PDict [(''type'', PStr ''NULL''), (''value'', PNone)]) s)"

definition literals :: "pstate \<Rightarrow> pyval presult" where
  "literals s =
     pbind (peek s) (\<lambda>t s.
       if tok_type t = STRING then string_literal s
       else if tok_type t = NUMBER then numeric_literal s
       else null_literal s)"

lemma pbind_cong [fundef_cong]:
  "m = m' \<Longrightarrow> (\<And>x s. m' = Some (Inr (x, s)) \<Longrightarrow> f x s = f' x s) \<Longrightarrow> pbind m f = pbind m' f'"
  by (auto simp: pbind_def split: option.splits sum.splits)

lemma peek_same: "peek s = Some (Inr (t, s')) \<Longrightarrow> s' = s \<and> s \<noteq> []"
  by (cases s) (auto simp: peek_def ret_def raise_def)

lemma consume_shorter [termination_simp]:
  "consume token_type s = Some (Inr (t, s')) \<Longrightarrow> length s' < length s"
  by (cases s) (auto simp: consume_def peek_def pbind_def ret_def raise_def split: if_splits)

lemma literals_shorter [termination_simp]:
  "literals s = Some (Inr (x, s')) \<Longrightarrow> length s' < length s"
  by (cases s)
     (auto simp: literals_def string_literal_def numeric_literal_def null_literal_def
        consume_def peek_def pbind_def ret_def raise_def split: if_splits sum.splits)

text \<open>The loop of \<open>identifier_expression\<close>, with \<open>_id\<close> as its accumulator.\<close>

function identifier_expression_loop :: "string list \<Rightarrow> pstate \<Rightarrow> (string list) presult" where
  "identifier_expression_loop ids s =
     (if la_is DOT s
      then pbind (consume DOT s) (\<lambda>_ s1.
           pbind (consume IDENTIFIER s1) (\<lambda>t s2.
             identifier_expression_loop (ids @ [tok_value t]) s2))
      else ret ids s)"
  by pat_completeness auto
termination
  by (relation "measure (\<lambda>(ids, s). length s)") (auto dest!: consume_shorter)

declare identifier_expression_loop.simps [simp del]

definition identifier_expression :: "pstate \<Rightarrow> pyval presult" where
  "identifier_expression s =
     pbind (consume IDENTIFIER s) (\<lambda>t s.
     pbind (identifier_expression_loop [tok_value t] s) (\<lambda>ids s.
       let res = [(''type'', PStr ''IdentifierExpression''), (''value'', PStr (join ''.'' ids))]
       in if length ids > 1
          then ret (PDict (res @ [(''source_table'', PStr (hd ids))])) s
          else ret (PDict res) s))"

text \<open>The loop of \<open>array_expression\<close>, with \<open>items\<close> as its accumulator.\<close>

function array_expression_loop :: "pyval list \<Rightarrow> pstate \<Rightarrow> (pyval list) presult" where
  "array_expression_loop items s =
     pbind (peek s) (\<lambda>t s0.
       if tok_type t \<noteq> CLOSING_SQUARE_BRACKET
       then pbind (literals s0) (\<lambda>item s1. array_expression_loop (items @ [item]) s1)
       else ret items s0)"
  by pat_completeness auto
termination
  by (relation "measure (\<lambda>(items, s). length s)") (auto dest!: peek_same literals_shorter)

declare array_expression_loop.simps [simp del]

definition array_expression :: "pstate \<Rightarrow> pyval presult" where
  "array_expression s =
     pbind (consume OPENING_SQUARE_BRACKET s) (\<lambda>_ s.
     pbind (array_expression_loop [] s) (\<lambda>items s.
     pbind (consume CLOSING_SQUARE_BRACKET s) (\<lambda>_ s.
       ret (PDict [(''type'', PStr ''ArrayExpression''), (''body'', PList items)]) s)))"

subsection \<open>The two folds over an operand rule\<close>

text \<open>
  \<open>binary_expression\<close> and \<open>union_join_expression\<close> take the rule for their operands as
  the argument \<open>func\<close>.
\<close>

fun binary_expression_loop ::
  "nat \<Rightarrow> (pstate \<Rightarrow> pyval presult) \<Rightarrow> TokenType \<Rightarrow> string \<Rightarrow> pyval \<Rightarrow> pstate \<Rightarrow> pyval presult"
where
  "binary_expression_loop 0 func token_type ty left s = None"
| "binary_expression_loop (Suc n) func token_type ty left s =
     (if la_is token_type s
      then pbind (consume token_type s) (\<lambda>op s.
           pbind (func s) (\<lambda>right s.
             binary_expression_loop n func token_type ty
               (PDict [(''type'', PStr ty), (''operator'', PStr (tok_value op)),
                       (''left'', left), (''right'', right)]) s))
      else ret left s)"

definition binary_expression ::
  "nat \<Rightarrow> (pstate \<Rightarrow> pyval presult) \<Rightarrow> TokenType \<Rightarrow> string \<Rightarrow> pstate \<Rightarrow> pyval presult"
where
  "binary_expression n func token_type ty s =
     pbind (func s) (\<lambda>left s. binary_expression_loop n func token_type ty left s)"

fun union_join_expression_loop ::
  "nat \<Rightarrow> (pstate \<Rightarrow> pyval presult) \<Rightarrow> pyval \<Rightarrow> pstate \<Rightarrow> pyval presult"
where
  "union_join_expression_loop 0 func left s = None"
| "union_join_expression_loop (Suc n) func left s =
     (if la_is JOINS s
      then pbind (consume JOINS s) (\<lambda>join_type s.
           pbind (func s) (\<lambda>right s.
             if is_substring ''join'' (tok_value join_type)
             then pbind (consume KEYWORD s) (\<lambda>_ s.
                  pbind (func s) (\<lambda>cond s.
                    union_join_expression_loop n func
                      (PDict [(''type'', PStr ''JoinExpression''),
                              (''join_type'', PStr (tok_value join_type)),
                              (''left'', left), (''right'', right), (''condition'', cond)]) s))
             else union_join_expression_loop n func
                    (PDict [(''type'', PStr ''UnionExpression''),
                            (''left'', left), (''right'', right)]) s))
      else ret left s)"

definition union_join_expression ::
  "nat \<Rightarrow> (pstate \<Rightarrow> pyval presult) \<Rightarrow> pstate \<Rightarrow> pyval presult"
where
  "union_join_expression n func s =
     pbind (func s) (\<lambda>left s. union_join_expression_loop n func left s)"

subsection \<open>Statements and expressions\<close>

text \<open>
  All the other methods reach each other through \<open>self.statement()\<close> and
  \<open>self.expression()\<close>. Each of them is defined here with these two as the arguments
  \<open>stmt\<close> and \<open>expr\<close> (where it uses them), and with the bound \<open>n\<close> on the turns of
  its loop (where it has one); \<open>statement\<close> and \<open>expression\<close> themselves close the
  recursion at the end, spending one unit of fuel at each call.
\<close>

type_synonym rule = "pstate \<Rightarrow> pyval presult"

definition filter_keywords :: "string list" where
  "filter_keywords = [''where'', ''having'', ''group by'']"

definition variable_assignment_statement :: "rule \<Rightarrow> rule \<Rightarrow> rule" where
  "variable_assignment_statement stmt expr s =
     pbind (consume KEYWORD s) (\<lambda>_ s.
     pbind (consume IDENTIFIER s) (\<lambda>name s.
     pbind (consume EQUALS s) (\<lambda>_ s.
     pbind (peek s) (\<lambda>t s.
     pbind (if tok_type t = OPENING_CURLY_BRACKET then stmt s else expr s) (\<lambda>v s.
       ret (PDict [(''type'', PStr ''VariableAssignment''),
                   (''name'', PStr (tok_value name)), (''value'', v)]) s)))))"

definition filter_statement :: "rule \<Rightarrow> rule \<Rightarrow> rule" where
  "filter_statement stmt expr s =
     pbind (consume KEYWORD s) (\<lambda>f s.
     pbind (if tok_value f = ''group by'' then stmt s else expr s) (\<lambda>body s.
       ret (PDict [(''type'', PStr ''filter''), (''value'', PStr (tok_value f)),
                   (''body'', body)]) s))"

fun filter_statement_list_loop ::
  "nat \<Rightarrow> rule \<Rightarrow> rule \<Rightarrow> pyval list \<Rightarrow> pstate \<Rightarrow> (pyval list) presult"
where
  "filter_statement_list_loop 0 stmt expr fs s = None"
| "filter_statement_list_loop (Suc n) stmt expr fs s =
     pbind (peek s) (\<lambda>t s.
       if tok_value t \<in> set filter_keywords
       then pbind (filter_statement stmt expr s) (\<lambda>f s.
              filter_statement_list_loop n stmt expr (fs @ [f]) s)
       else ret fs s)"

definition filter_statement_list :: "nat \<Rightarrow> rule \<Rightarrow> rule \<Rightarrow> rule" where
  "filter_statement_list n stmt expr s =
     pbind (filter_statement stmt expr s) (\<lambda>f s.
     pbind (filter_statement_list_loop n stmt expr [f] s) (\<lambda>fs s.
       ret (PDict [(''type'', PStr ''FilterStatementList''), (''body'', PList fs)]) s))"

fun block_statement_loop :: "nat \<Rightarrow> rule \<Rightarrow> pyval list \<Rightarrow> pstate \<Rightarrow> (pyval list) presult" where
  "block_statement_loop 0 stmt statements s = None"
| "block_statement_loop (Suc n) stmt statements s =
     pbind (peek s) (\<lambda>t s.
       if tok_type t \<noteq> CLOSING_CURLY_BRACKET
       then pbind (stmt s) (\<lambda>st s. block_statement_loop n stmt (statements @ [st]) s)
       else ret statements s)"

definition block_statement :: "nat \<Rightarrow> rule \<Rightarrow> rule" where
  "block_statement n stmt s =
     pbind (consume OPENING_CURLY_BRACKET s) (\<lambda>_ s.
     pbind (peek s) (\<lambda>t s.
     pbind (if tok_type t = KEYWORD
            then pbind (consume KEYWORD s) (\<lambda>k s. ret (PStr (tok_value k)) s)
            else ret PNone s) (\<lambda>modifier s.
     pbind (block_statement_loop n stmt [] s) (\<lambda>statements s.
     pbind (consume CLOSING_CURLY_BRACKET s) (\<lambda>_ s.
       ret (PDict [(''type'', PStr ''BlockStatement''), (''modifier'', modifier),
                   (''body'', PList statements)]) s)))))"

definition column_assignment_statement :: "rule \<Rightarrow> rule" where
  "column_assignment_statement expr s =
     pbind (expr s) (\<lambda>name s.
     pbind (peek s) (\<lambda>t s.
       if tok_type t = COLON
       then pbind (consume COLON s) (\<lambda>_ s.
            pbind (expr s) (\<lambda>v s.
              ret (PDict [(''type'', PStr ''ColumnAssignmentStatement''),
                          (''name'', name), (''value'', v)]) s))
       else ret name s))"

fun column_assignment_list_loop ::
  "nat \<Rightarrow> rule \<Rightarrow> pyval list \<Rightarrow> pstate \<Rightarrow> (pyval list) presult"
where
  "column_assignment_list_loop 0 expr assignments s = None"
| "column_assignment_list_loop (Suc n) expr assignments s =
     pbind (peek s) (\<lambda>t s.
       if tok_type t = COMMA
       then pbind (consume COMMA s) (\<lambda>_ s.
            pbind (column_assignment_statement expr s) (\<lambda>a s.
              column_assignment_list_loop n expr (assignments @ [a]) s))
       else ret assignments s)"

definition column_assignment_list :: "nat \<Rightarrow> rule \<Rightarrow> rule" where
  "column_assignment_list n expr s =
     pbind (column_assignment_statement expr s) (\<lambda>a s.
     pbind (column_assignment_list_loop n expr [a] s) (\<lambda>assignments s.
       ret (PDict [(''type'', PStr ''ColumnAssignmentList''), (''body'', PList assignments)]) s))"

definition project_expression :: "rule \<Rightarrow> rule" where
  "project_expression stmt s =
     pbind (consume KEYWORD s) (\<lambda>_ s.
     pbind (consume IDENTIFIER s) (\<lambda>_ s.
     pbind (consume KEYWORD s) (\<lambda>_ s.
     pbind (stmt s) (\<lambda>body s.
       ret (PDict [(''type'', PStr ''ProjectExpression''), (''body'', body)]) s))))"

definition parenthesized_expression :: "rule \<Rightarrow> rule" where
  "parenthesized_expression expr s =
     pbind (consume OPENING_PARENTHESIS s) (\<lambda>_ s.
     pbind (expr s) (\<lambda>body s.
     pbind (consume CLOSING_PARENTHESIS s) (\<lambda>_ s.
       ret (PDict [(''type'', PStr ''ParenthesizedExpression''), (''body'', body)]) s)))"

definition case_expression :: "rule \<Rightarrow> rule" where
  "case_expression expr s =
     pbind (consume KEYWORD s) (\<lambda>_ s.
     pbind (expr s) (\<lambda>condition s.
     pbind (consume FAT_ARROW s) (\<lambda>_ s.
     pbind (expr s) (\<lambda>v s.
       ret (PDict [(''type'', PStr ''CaseExpression''), (''conditions'', condition),
                   (''value'', v)]) s))))"

fun match_expression_loop :: "nat \<Rightarrow> rule \<Rightarrow> pyval list \<Rightarrow> pstate \<Rightarrow> (pyval list) presult" where
  "match_expression_loop 0 expr cases s = None"
| "match_expression_loop (Suc n) expr cases s =
     pbind (peek s) (\<lambda>t s.
       if tok_type t \<noteq> CLOSING_CURLY_BRACKET
       then pbind (case_expression expr s) (\<lambda>c s. match_expression_loop n expr (cases @ [c]) s)
       else ret cases s)"

definition match_expression :: "nat \<Rightarrow> rule \<Rightarrow> rule" where
  "match_expression n expr s =
     pbind (consume KEYWORD s) (\<lambda>_ s.
     pbind (consume OPENING_CURLY_BRACKET s) (\<lambda>_ s.
     pbind (match_expression_loop n expr [] s) (\<lambda>cases s.
     pbind (consume CLOSING_CURLY_BRACKET s) (\<lambda>_ s.
       ret (PDict [(''type'', PStr ''MatchExpression''), (''body'', PList cases)]) s))))"

text \<open>
  The loop \<open>while self._lookahead.type == TokenType.COMMA\<close> of \<open>functional_expression\<close>
  and of \<open>partition_by_expression\<close>, which is the same in both.
\<close>

fun comma_expressions_loop ::
  "nat \<Rightarrow> rule \<Rightarrow> pyval list \<Rightarrow> pstate \<Rightarrow> (pyval list) presult"
where
  "comma_expressions_loop 0 expr args s = None"
| "comma_expressions_loop (Suc n) expr args s =
     pbind (peek s) (\<lambda>t s.
       if tok_type t = COMMA
       then pbind (consume COMMA s) (\<lambda>_ s.
            pbind (expr s) (\<lambda>a s. comma_expressions_loop n expr (args @ [a]) s))
       else ret args s)"

definition functional_expression :: "nat \<Rightarrow> rule \<Rightarrow> rule" where
  "functional_expression n expr s =
     pbind (consume KEYWORD s) (\<lambda>name s.
     pbind (consume OPENING_PARENTHESIS s) (\<lambda>_ s.
     pbind (expr s) (\<lambda>a s.
     pbind (comma_expressions_loop n expr [a] s) (\<lambda>args s.
     pbind (consume CLOSING_PARENTHESIS s) (\<lambda>_ s.
       ret (PDict [(''type'', PStr ''FunctionalExpression''),
                   (''name'', PStr (tok_value name)), (''args'', PList args)]) s)))))"

definition partition_by_expression :: "nat \<Rightarrow> rule \<Rightarrow> rule" where
  "partition_by_expression n expr s =
     pbind (consume KEYWORD s) (\<lambda>_ s.
     pbind (expr s) (\<lambda>e s.
     pbind (comma_expressions_loop n expr [e] s) (\<lambda>body s.
       ret (PDict [(''type'', PStr ''PartitionByExpression''), (''body'', PList body)]) s)))"

definition primary_expression :: "nat \<Rightarrow> rule \<Rightarrow> rule \<Rightarrow> rule" where
  "primary_expression n stmt expr s =
     pbind (peek s) (\<lambda>t s.
       if tok_type t = IDENTIFIER then identifier_expression s
       else if tok_value t = ''match'' then match_expression n expr s
       else if tok_value t = ''case'' then case_expression expr s
       else if tok_value t = ''project'' then project_expression stmt s
       else if tok_value t = ''partition by'' then partition_by_expression n expr s
       else if tok_type t = KEYWORD then functional_expression n expr s
       else if tok_type t = OPENING_PARENTHESIS then parenthesized_expression expr s
       else if tok_type t = OPENING_SQUARE_BRACKET then array_expression s
       else literals s)"

definition unary_expression :: "nat \<Rightarrow> rule \<Rightarrow> rule \<Rightarrow> rule" where
  "unary_expression n stmt expr s =
     pbind (peek s) (\<lambda>t s.
     pbind (if tok_type t = ADDITIVE_OPERATOR
            then pbind (consume ADDITIVE_OPERATOR s) (\<lambda>op s. ret (PStr (tok_value op)) s)
            else ret PNone s) (\<lambda>operator s.
       if truthy operator
       then pbind (primary_expression n stmt expr s) (\<lambda>argument s.
              ret (PDict [(''type'', PStr ''unary_expression''), (''operator'', operator),
                          (''argument'', argument)]) s)
       else primary_expression n stmt expr s))"

definition membership_expression :: "nat \<Rightarrow> rule \<Rightarrow> rule \<Rightarrow> rule" where
  "membership_expression n stmt expr =
     binary_expression n (unary_expression n stmt expr) MEMBERSHIP_OPERATOR
       ''MembershipExpression''"

definition multiplicative_expression :: "nat \<Rightarrow> rule \<Rightarrow> rule \<Rightarrow> rule" where
  "multiplicative_expression n stmt expr =
     binary_expression n (membership_expression n stmt expr) MULTIPLICATIVE_OPERATOR
       ''BinaryExpression''"

definition additive_expression :: "nat \<Rightarrow> rule \<Rightarrow> rule \<Rightarrow> rule" where
  "additive_expression n stmt expr =
     binary_expression n (multiplicative_expression n stmt expr) ADDITIVE_OPERATOR
       ''BinaryExpression''"

definition relational_expression :: "nat \<Rightarrow> rule \<Rightarrow> rule \<Rightarrow> rule" where
  "relational_expression n stmt expr =
     binary_expression n (additive_expression n stmt expr) COMPARISON_OPERATOR
       ''BinaryExpression''"

definition equality_expression :: "nat \<Rightarrow> rule \<Rightarrow> rule \<Rightarrow> rule" where
  "equality_expression n stmt expr =
     binary_expression n (relational_expression n stmt expr) EQUALITY ''BinaryExpression''"

definition logical_and :: "nat \<Rightarrow> rule \<Rightarrow> rule \<Rightarrow> rule" where
  "logical_and n stmt expr =
     binary_expression n (equality_expression n stmt expr) LOGICAL_AND ''BinaryExpression''"

definition logical_or :: "nat \<Rightarrow> rule \<Rightarrow> rule \<Rightarrow> rule" where
  "logical_or n stmt expr =
     binary_expression n (logical_and n stmt expr) LOGICAL_OR ''BinaryExpression''"

definition join_expr :: "nat \<Rightarrow> rule \<Rightarrow> rule \<Rightarrow> rule" where
  "join_expr n stmt expr = union_join_expression n (logical_or n stmt expr)"

definition over_expression :: "nat \<Rightarrow> rule \<Rightarrow> rule \<Rightarrow> rule" where
  "over_expression n stmt expr =
     binary_expression n (join_expr n stmt expr) OVER ''BinaryExpression''"

fun statement :: "nat \<Rightarrow> rule" and expression :: "nat \<Rightarrow> rule" where
  "statement 0 s = None"
| "statement (Suc n) s =
     pbind (peek s) (\<lambda>t s.
       if tok_value t = ''let''
       then variable_assignment_statement (\<lambda>s. statement n s) (\<lambda>s. expression n s) s
       else if tok_type t = OPENING_CURLY_BRACKET
       then block_statement n (\<lambda>s. statement n s) s
       else if tok_value t \<in> set filter_keywords
       then filter_statement_list n (\<lambda>s. statement n s) (\<lambda>s. expression n s) s
       else if tok_type t = IDENTIFIER
       then column_assignment_list n (\<lambda>s. expression n s) s
       else expression n s)"
| "expression 0 s = None"
| "expression (Suc n) s = over_expression n (\<lambda>s. statement n s) (\<lambda>s. expression n s) s"

declare statement.simps [simp del] expression.simps [simp del]

text \<open>\<open>statement_list\<close> runs while a lookahead is left; \<open>parse\<close> is the entry point.\<close>

fun statement_list_loop :: "nat \<Rightarrow> pyval list \<Rightarrow> pstate \<Rightarrow> (pyval list) presult" where
  "statement_list_loop 0 statements s = None"
| "statement_list_loop (Suc n) statements s =
     (if s \<noteq> []
      then pbind (statement n s) (\<lambda>st s. statement_list_loop n (statements @ [st]) s)
      else ret statements s)"

definition statement_list :: "nat \<Rightarrow> rule" where
  "statement_list n s =
     pbind (statement_list_loop n [] s) (\<lambda>statements s.
       ret (PDict [(''type'', PStr ''StatementList''), (''body'', PList statements)]) s)"

text \<open>
  \<open>parse\<close> returns the tree alone; \<open>None\<close> means that the fuel \<open>n\<close> was too small for
  this text.
\<close>

definition parse :: "nat \<Rightarrow> string \<Rightarrow> (error + pyval) option" where
  "parse n target = map_option (map_sum id fst) (statement_list n (lex target))"

text \<open>
  The two stages in a row, as the two scripts run them: the text is parsed, and the tree is
  given to \<open>transform\<close>.
\<close>

definition translate :: "nat \<Rightarrow> string \<Rightarrow> (error + string) option" where
  "translate n target = map_option (\<lambda>r. bind r transform) (parse n target)"

text \<open>Names for the dicts that the parser builds, used to write trees in the theorems.\<close>

definition Identifier :: "string \<Rightarrow> pyval" where
  "Identifier v = PDict [(''type'', PStr ''IdentifierExpression''), (''value'', PStr v)]"

definition Dotted :: "string \<Rightarrow> string \<Rightarrow> pyval" where
  "Dotted v table =
     PDict [(''type'', PStr ''IdentifierExpression''), (''value'', PStr v),
            (''source_table'', PStr table)]"

definition Numeric :: "int \<Rightarrow> pyval" where
  "Numeric i = PDict [(''type'', PStr ''NumericLiteral''), (''value'', PInt i)]"

definition Null :: pyval where
  "Null = PDict [(''type'', PStr ''NULL''), (''value'', PNone)]"

definition Binary :: "string \<Rightarrow> pyval \<Rightarrow> pyval \<Rightarrow> pyval" where
  "Binary op l r =
     PDict [(''type'', PStr ''BinaryExpression''), (''operator'', PStr op),
            (''left'', l), (''right'', r)]"

definition Join :: "string \<Rightarrow> pyval \<Rightarrow> pyval \<Rightarrow> pyval \<Rightarrow> pyval" where
  "Join join_type l r c =
     PDict [(''type'', PStr ''JoinExpression''), (''join_type'', PStr join_type),
            (''left'', l), (''right'', r), (''condition'', c)]"

definition Functional :: "string \<Rightarrow> pyval list \<Rightarrow> pyval" where
  "Functional name args =
     PDict [(''type'', PStr ''FunctionalExpression''), (''name'', PStr name),
            (''args'', PList args)]"

definition Parenthesized :: "pyval \<Rightarrow> pyval" where
  "Parenthesized body = PDict [(''type'', PStr ''ParenthesizedExpression''), (''body'', body)]"

definition Array :: "pyval list \<Rightarrow> pyval" where
  "Array items = PDict [(''type'', PStr ''ArrayExpression''), (''body'', PList items)]"

definition ColumnAssignment :: "pyval \<Rightarrow> pyval \<Rightarrow> pyval" where
  "ColumnAssignment name v =
     PDict [(''type'', PStr ''ColumnAssignmentStatement''), (''name'', name), (''value'', v)]"

definition ColumnAssignments :: "pyval list \<Rightarrow> pyval" where
  "ColumnAssignments assignments =
     PDict [(''type'', PStr ''ColumnAssignmentList''), (''body'', PList assignments)]"

definition Block :: "pyval \<Rightarrow> pyval list \<Rightarrow> pyval" where
  "Block modifier statements =
     PDict [(''type'', PStr ''BlockStatement''), (''modifier'', modifier),
            (''body'', PList statements)]"

definition Assignment :: "string \<Rightarrow> pyval \<Rightarrow> pyval" where
  "Assignment name v =
     PDict [(''type'', PStr ''VariableAssignment''), (''name'', PStr name), (''value'', v)]"

definition Statements :: "pyval list \<Rightarrow> pyval" where
  "Statements statements =
     PDict [(''type'', PStr ''StatementList''), (''body'', PList statements)]"

lemmas node_defs =
  Identifier_def Dotted_def Numeric_def Null_def Binary_def Join_def Functional_def
  Parenthesized_def Array_def ColumnAssignment_def ColumnAssignments_def Block_def
  Assignment_def Statements_def

section \<open>More fuel never changes a result\<close>

text \<open>
  \<open>rule_le f g\<close>: wherever the rule \<open>f\<close> ends, with a value or with an error, \<open>g\<close>
  ends in the same way. Every method is monotone in its fuel and in the rules it is given,
  so a result of \<open>parse\<close> for some fuel is its result for every larger fuel.
\<close>

definition rule_le :: "('s \<Rightarrow> 'a option) \<Rightarrow> ('s \<Rightarrow> 'a option) \<Rightarrow> bool" where
  "rule_le f g = (\<forall>s r. f s = Some r \<longrightarrow> g s = Some r)"

lemma rule_leI: "(\<And>s r. f s = Some r \<Longrightarrow> g s = Some r) \<Longrightarrow> rule_le f g"
  by (simp add: rule_le_def)

lemma rule_leD: "rule_le f g \<Longrightarrow> f s = Some r \<Longrightarrow> g s = Some r"
  by (simp add: rule_le_def)

lemma rule_le_refl: "rule_le f f"
  by (simp add: rule_le_def)

lemma rule_le_trans: "rule_le f g \<Longrightarrow> rule_le g h \<Longrightarrow> rule_le f h"
  by (simp add: rule_le_def)

lemma pbind_mono:
  assumes "pbind m f = Some r"
    and "\<And>r'. m = Some r' \<Longrightarrow> m' = Some r'"
    and "\<And>x s r'. f x s = Some r' \<Longrightarrow> f' x s = Some r'"
  shows "pbind m' f' = Some r"
  using assms by (auto simp: pbind_def split: option.splits sum.splits)

lemma if_mono:
  assumes "(if c then a else b) = Some r"
    and "a = Some r \<Longrightarrow> a' = Some r"
    and "b = Some r \<Longrightarrow> b' = Some r"
  shows "(if c then a' else b') = Some r"
  using assms by (auto split: if_splits)

lemma binary_expression_loop_mono:
  "binary_expression_loop n func token_type ty left s = Some r \<Longrightarrow> n \<le> n' \<Longrightarrow> rule_le func func'
   \<Longrightarrow> binary_expression_loop n' func' token_type ty left s = Some r"
proof (induction n arbitrary: n' left s r)
  case 0
  then show ?case by simp
next
  case (Suc n)
  then obtain m where n': "n' = Suc m" "n \<le> m" by (cases n') auto
  from Suc.prems(1) show ?case
    unfolding n' binary_expression_loop.simps
    by (elim if_mono pbind_mono) (auto intro: Suc.IH n' Suc.prems(3) rule_leD [OF Suc.prems(3)])
qed

lemma binary_expression_mono:
  "n \<le> n' \<Longrightarrow> rule_le func func'
   \<Longrightarrow> rule_le (binary_expression n func token_type ty) (binary_expression n' func' token_type ty)"
  unfolding binary_expression_def
  by (rule rule_leI, elim pbind_mono) (auto intro: binary_expression_loop_mono rule_leD)

lemma union_join_expression_loop_mono:
  "union_join_expression_loop n func left s = Some r \<Longrightarrow> n \<le> n' \<Longrightarrow> rule_le func func'
   \<Longrightarrow> union_join_expression_loop n' func' left s = Some r"
proof (induction n arbitrary: n' left s r)
  case 0
  then show ?case by simp
next
  case (Suc n)
  then obtain m where n': "n' = Suc m" "n \<le> m" by (cases n') auto
  from Suc.prems(1) show ?case
    unfolding n' union_join_expression_loop.simps
    by (elim if_mono pbind_mono) (auto intro: Suc.IH n' Suc.prems(3) rule_leD [OF Suc.prems(3)])
qed

lemma union_join_expression_mono:
  "n \<le> n' \<Longrightarrow> rule_le func func'
   \<Longrightarrow> rule_le (union_join_expression n func) (union_join_expression n' func')"
  unfolding union_join_expression_def
  by (rule rule_leI, elim pbind_mono) (auto intro: union_join_expression_loop_mono rule_leD)

lemma variable_assignment_statement_mono:
  "rule_le stmt stmt' \<Longrightarrow> rule_le expr expr'
   \<Longrightarrow> rule_le (variable_assignment_statement stmt expr) (variable_assignment_statement stmt' expr')"
  unfolding variable_assignment_statement_def
  by (rule rule_leI, elim if_mono pbind_mono) (auto intro: rule_leD)

lemma filter_statement_mono:
  "rule_le stmt stmt' \<Longrightarrow> rule_le expr expr'
   \<Longrightarrow> rule_le (filter_statement stmt expr) (filter_statement stmt' expr')"
  unfolding filter_statement_def
  by (rule rule_leI, elim if_mono pbind_mono) (auto intro: rule_leD)

lemma filter_statement_list_loop_mono:
  "filter_statement_list_loop n stmt expr fs s = Some r \<Longrightarrow> n \<le> n'
   \<Longrightarrow> rule_le stmt stmt' \<Longrightarrow> rule_le expr expr'
   \<Longrightarrow> filter_statement_list_loop n' stmt' expr' fs s = Some r"
proof (induction n arbitrary: n' fs s r)
  case 0
  then show ?case by simp
next
  case (Suc n)
  then obtain m where n': "n' = Suc m" "n \<le> m" by (cases n') auto
  from Suc.prems(1) show ?case
    unfolding n' filter_statement_list_loop.simps
    by (elim if_mono pbind_mono)
       (auto intro: Suc.IH n' Suc.prems rule_leD [OF filter_statement_mono [OF Suc.prems(3,4)]])
qed

lemma filter_statement_list_mono:
  "n \<le> n' \<Longrightarrow> rule_le stmt stmt' \<Longrightarrow> rule_le expr expr'
   \<Longrightarrow> rule_le (filter_statement_list n stmt expr) (filter_statement_list n' stmt' expr')"
  unfolding filter_statement_list_def
  by (rule rule_leI, elim pbind_mono)
     (auto intro: filter_statement_list_loop_mono rule_leD [OF filter_statement_mono])

lemma block_statement_loop_mono:
  "block_statement_loop n stmt statements s = Some r \<Longrightarrow> n \<le> n' \<Longrightarrow> rule_le stmt stmt'
   \<Longrightarrow> block_statement_loop n' stmt' statements s = Some r"
proof (induction n arbitrary: n' statements s r)
  case 0
  then show ?case by simp
next
  case (Suc n)
  then obtain m where n': "n' = Suc m" "n \<le> m" by (cases n') auto
  from Suc.prems(1) show ?case
    unfolding n' block_statement_loop.simps
    by (elim if_mono pbind_mono) (auto intro: Suc.IH n' Suc.prems rule_leD [OF Suc.prems(3)])
qed

lemma block_statement_mono:
  "n \<le> n' \<Longrightarrow> rule_le stmt stmt'
   \<Longrightarrow> rule_le (block_statement n stmt) (block_statement n' stmt')"
  unfolding block_statement_def
  by (rule rule_leI, elim if_mono pbind_mono) (auto intro: block_statement_loop_mono)

lemma column_assignment_statement_mono:
  "rule_le expr expr'
   \<Longrightarrow> rule_le (column_assignment_statement expr) (column_assignment_statement expr')"
  unfolding column_assignment_statement_def
  by (rule rule_leI, elim if_mono pbind_mono) (auto intro: rule_leD)

lemma column_assignment_list_loop_mono:
  "column_assignment_list_loop n expr assignments s = Some r \<Longrightarrow> n \<le> n' \<Longrightarrow> rule_le expr expr'
   \<Longrightarrow> column_assignment_list_loop n' expr' assignments s = Some r"
proof (induction n arbitrary: n' assignments s r)
  case 0
  then show ?case by simp
next
  case (Suc n)
  then obtain m where n': "n' = Suc m" "n \<le> m" by (cases n') auto
  from Suc.prems(1) show ?case
    unfolding n' column_assignment_list_loop.simps
    by (elim if_mono pbind_mono)
       (auto intro: Suc.IH n' Suc.prems
          rule_leD [OF column_assignment_statement_mono [OF Suc.prems(3)]])
qed

lemma column_assignment_list_mono:
  "n \<le> n' \<Longrightarrow> rule_le expr expr'
   \<Longrightarrow> rule_le (column_assignment_list n expr) (column_assignment_list n' expr')"
  unfolding column_assignment_list_def
  by (rule rule_leI, elim pbind_mono)
     (auto intro: column_assignment_list_loop_mono rule_leD [OF column_assignment_statement_mono])

lemma project_expression_mono:
  "rule_le stmt stmt' \<Longrightarrow> rule_le (project_expression stmt) (project_expression stmt')"
  unfolding project_expression_def
  by (rule rule_leI, elim pbind_mono) (auto intro: rule_leD)

lemma parenthesized_expression_mono:
  "rule_le expr expr' \<Longrightarrow> rule_le (parenthesized_expression expr) (parenthesized_expression expr')"
  unfolding parenthesized_expression_def
  by (rule rule_leI, elim pbind_mono) (auto intro: rule_leD)

lemma case_expression_mono:
  "rule_le expr expr' \<Longrightarrow> rule_le (case_expression expr) (case_expression expr')"
  unfolding case_expression_def
  by (rule rule_leI, elim pbind_mono) (auto intro: rule_leD)

lemma match_expression_loop_mono:
  "match_expression_loop n expr cases s = Some r \<Longrightarrow> n \<le> n' \<Longrightarrow> rule_le expr expr'
   \<Longrightarrow> match_expression_loop n' expr' cases s = Some r"
proof (induction n arbitrary: n' cases s r)
  case 0
  then show ?case by simp
next
  case (Suc n)
  then obtain m where n': "n' = Suc m" "n \<le> m" by (cases n') auto
  from Suc.prems(1) show ?case
    unfolding n' match_expression_loop.simps
    by (elim if_mono pbind_mono)
       (auto intro: Suc.IH n' Suc.prems rule_leD [OF case_expression_mono [OF Suc.prems(3)]])
qed

lemma match_expression_mono:
  "n \<le> n' \<Longrightarrow> rule_le expr expr'
   \<Longrightarrow> rule_le (match_expression n expr) (match_expression n' expr')"
  unfolding match_expression_def
  by (rule rule_leI, elim pbind_mono) (auto intro: match_expression_loop_mono)

lemma comma_expressions_loop_mono:
  "comma_expressions_loop n expr args s = Some r \<Longrightarrow> n \<le> n' \<Longrightarrow> rule_le expr expr'
   \<Longrightarrow> comma_expressions_loop n' expr' args s = Some r"
proof (induction n arbitrary: n' args s r)
  case 0
  then show ?case by simp
next
  case (Suc n)
  then obtain m where n': "n' = Suc m" "n \<le> m" by (cases n') auto
  from Suc.prems(1) show ?case
    unfolding n' comma_expressions_loop.simps
    by (elim if_mono pbind_mono) (auto intro: Suc.IH n' Suc.prems rule_leD [OF Suc.prems(3)])
qed

lemma functional_expression_mono:
  "n \<le> n' \<Longrightarrow> rule_le expr expr'
   \<Longrightarrow> rule_le (functional_expression n expr) (functional_expression n' expr')"
  unfolding functional_expression_def
  by (rule rule_leI, elim pbind_mono) (auto intro: comma_expressions_loop_mono rule_leD)

lemma partition_by_expression_mono:
  "n \<le> n' \<Longrightarrow> rule_le expr expr'
   \<Longrightarrow> rule_le (partition_by_expression n expr) (partition_by_expression n' expr')"
  unfolding partition_by_expression_def
  by (rule rule_leI, elim pbind_mono) (auto intro: comma_expressions_loop_mono rule_leD)

lemma primary_expression_mono:
  assumes "n \<le> n'" "rule_le stmt stmt'" "rule_le expr expr'"
  shows "rule_le (primary_expression n stmt expr) (primary_expression n' stmt' expr')"
  unfolding primary_expression_def
  by (rule rule_leI, elim if_mono pbind_mono)
     (auto intro: rule_leD [OF match_expression_mono [OF assms(1,3)]]
        rule_leD [OF case_expression_mono [OF assms(3)]]
        rule_leD [OF project_expression_mono [OF assms(2)]]
        rule_leD [OF partition_by_expression_mono [OF assms(1,3)]]
        rule_leD [OF functional_expression_mono [OF assms(1,3)]]
        rule_leD [OF parenthesized_expression_mono [OF assms(3)]])

lemma unary_expression_mono:
  assumes "n \<le> n'" "rule_le stmt stmt'" "rule_le expr expr'"
  shows "rule_le (unary_expression n stmt expr) (unary_expression n' stmt' expr')"
  unfolding unary_expression_def
  by (rule rule_leI, elim if_mono pbind_mono)
     (auto intro: rule_leD [OF primary_expression_mono [OF assms]])

lemma over_expression_mono:
  assumes "n \<le> n'" "rule_le stmt stmt'" "rule_le expr expr'"
  shows "rule_le (over_expression n stmt expr) (over_expression n' stmt' expr')"
  unfolding over_expression_def join_expr_def logical_or_def logical_and_def
    equality_expression_def relational_expression_def additive_expression_def
    multiplicative_expression_def membership_expression_def
  by (intro binary_expression_mono union_join_expression_mono unary_expression_mono assms)

lemma statement_expression_Suc:
  "rule_le (statement n) (statement (Suc n)) \<and> rule_le (expression n) (expression (Suc n))"
proof (induction n)
  case 0
  show ?case by (simp add: rule_le_def statement.simps expression.simps)
next
  case (Suc n)
  then have st: "rule_le (statement n) (statement (Suc n))"
    and ex: "rule_le (expression n) (expression (Suc n))" by simp_all
  have le: "n \<le> Suc n" by simp
  have "statement (Suc (Suc n)) s = Some r" if "statement (Suc n) s = Some r" for s r
    using that unfolding statement.simps(2) [of n s] statement.simps(2) [of "Suc n" s]
    by (elim if_mono pbind_mono)
       (auto intro: rule_leD [OF variable_assignment_statement_mono [OF st ex]]
          rule_leD [OF block_statement_mono [OF le st]]
          rule_leD [OF filter_statement_list_mono [OF le st ex]]
          rule_leD [OF column_assignment_list_mono [OF le ex]]
          rule_leD [OF ex])
  moreover have "expression (Suc (Suc n)) s = Some r" if "expression (Suc n) s = Some r" for s r
    using that unfolding expression.simps(2) [of n s] expression.simps(2) [of "Suc n" s]
    by (rule rule_leD [OF over_expression_mono [OF le st ex]])
  ultimately show ?case by (simp add: rule_le_def)
qed

lemma statement_mono: "n \<le> n' \<Longrightarrow> rule_le (statement n) (statement n')"
  by (induction n' rule: nat_induct_at_least)
     (auto intro: rule_le_refl rule_le_trans statement_expression_Suc [THEN conjunct1])

lemma expression_mono: "n \<le> n' \<Longrightarrow> rule_le (expression n) (expression n')"
  by (induction n' rule: nat_induct_at_least)
     (auto intro: rule_le_refl rule_le_trans statement_expression_Suc [THEN conjunct2])

lemma statement_list_loop_mono:
  "statement_list_loop n statements s = Some r \<Longrightarrow> n \<le> n'
   \<Longrightarrow> statement_list_loop n' statements s = Some r"
proof (induction n arbitrary: n' statements s r)
  case 0
  then show ?case by simp
next
  case (Suc n)
  then obtain m where n': "n' = Suc m" "n \<le> m" by (cases n') auto
  from Suc.prems(1) show ?case
    unfolding n' statement_list_loop.simps
    by (elim if_mono pbind_mono)
       (auto intro: Suc.IH n' rule_leD [OF statement_mono [OF n'(2)]])
qed

lemma parse_mono: "parse n target = Some r \<Longrightarrow> n \<le> n' \<Longrightarrow> parse n' target = Some r"
proof -
  assume p: "parse n target = Some r" and le: "n \<le> n'"
  then obtain r' where r': "statement_list n (lex target) = Some r'" "r = map_sum id fst r'"
    by (auto simp: parse_def)
  from r'(1) have "statement_list n' (lex target) = Some r'"
    unfolding statement_list_def
    by (elim pbind_mono) (auto intro: statement_list_loop_mono le)
  with r'(2) show ?thesis by (simp add: parse_def)
qed

lemma translate_mono: "translate n target = Some r \<Longrightarrow> n \<le> n' \<Longrightarrow> translate n' target = Some r"
  by (auto simp: translate_def dest: parse_mono)

section \<open>The shape of expression nodes\<close>

text \<open>
  Every node that the expression rule returns lacks the key \<open>'value'\<close> or the key
  \<open>'name'\<close>: identifiers, literals and \<open>case\<close> arms have no \<open>'name'\<close>, calls have
  no \<open>'value'\<close>, the other expressions have neither.
\<close>

definition lacks_name_or_value :: "pyval \<Rightarrow> bool" where
  "lacks_name_or_value node = (isl (getitem node ''value'') \<or> isl (getitem node ''name''))"

definition yields :: "(pyval \<Rightarrow> bool) \<Rightarrow> rule \<Rightarrow> bool" where
  "yields P f = (\<forall>s node s'. f s = Some (Inr (node, s')) \<longrightarrow> P node)"

lemma yieldsI: "(\<And>s node s'. f s = Some (Inr (node, s')) \<Longrightarrow> P node) \<Longrightarrow> yields P f"
  by (simp add: yields_def)

lemma yieldsD: "yields P f \<Longrightarrow> f s = Some (Inr (node, s')) \<Longrightarrow> P node"
  by (auto simp: yields_def)

lemma pbindE:
  assumes "pbind m f = Some (Inr (x, s))"
  obtains y s1 where "m = Some (Inr (y, s1))" "f y s1 = Some (Inr (x, s))"
  using assms by (auto simp: pbind_def split: option.splits sum.splits)

lemma ret_eq: "ret x s = Some (Inr (y, s')) \<longleftrightarrow> x = y \<and> s = s'"
  by (auto simp: ret_def)

lemma raise_neq: "raise e \<noteq> Some (Inr r)"
  by (simp add: raise_def)

lemma binary_expression_loop_yields:
  "binary_expression_loop n func token_type ty left s = Some (Inr (node, s'))
   \<Longrightarrow> lacks_name_or_value left \<Longrightarrow> lacks_name_or_value node"
proof (induction n arbitrary: left s)
  case 0
  then show ?case by simp
next
  case (Suc n)
  have new: "lacks_name_or_value
      (PDict [(''type'', PStr ty), (''operator'', PStr op), (''left'', left), (''right'', right)])"
    for op right
    by (simp add: lacks_name_or_value_def)
  from Suc.prems show ?case
    by (auto simp: ret_eq elim!: pbindE split: if_splits intro: Suc.IH [OF _ new])
qed

lemma binary_expression_yields:
  "yields lacks_name_or_value func
   \<Longrightarrow> yields lacks_name_or_value (binary_expression n func token_type ty)"
  unfolding binary_expression_def
  by (rule yieldsI, elim pbindE) (auto dest: yieldsD binary_expression_loop_yields)

lemma union_join_expression_loop_yields:
  "union_join_expression_loop n func left s = Some (Inr (node, s'))
   \<Longrightarrow> lacks_name_or_value left \<Longrightarrow> lacks_name_or_value node"
proof (induction n arbitrary: left s)
  case 0
  then show ?case by simp
next
  case (Suc n)
  have new: "lacks_name_or_value
      (PDict [(''type'', PStr ''JoinExpression''), (''join_type'', PStr jt), (''left'', left),
              (''right'', right), (''condition'', cond)])"
    "lacks_name_or_value
      (PDict [(''type'', PStr ''UnionExpression''), (''left'', left), (''right'', right)])"
    for jt right cond
    by (simp_all add: lacks_name_or_value_def)
  from Suc.prems show ?case
    by (auto simp: ret_eq elim!: pbindE split: if_splits
        intro: Suc.IH [OF _ new(1)] Suc.IH [OF _ new(2)])
qed

lemma union_join_expression_yields:
  "yields lacks_name_or_value func
   \<Longrightarrow> yields lacks_name_or_value (union_join_expression n func)"
  unfolding union_join_expression_def
  by (rule yieldsI, elim pbindE) (auto dest: yieldsD union_join_expression_loop_yields)

lemma literals_yields: "yields lacks_name_or_value literals"
  unfolding literals_def string_literal_def numeric_literal_def null_literal_def
  by (rule yieldsI)
     (auto simp: ret_eq raise_neq lacks_name_or_value_def elim!: pbindE
        split: if_splits sum.splits)

lemma identifier_expression_yields: "yields lacks_name_or_value identifier_expression"
  unfolding identifier_expression_def
  by (rule yieldsI)
     (auto simp: ret_eq lacks_name_or_value_def Let_def elim!: pbindE split: if_splits)

lemma array_expression_yields: "yields lacks_name_or_value array_expression"
  unfolding array_expression_def
  by (rule yieldsI) (auto simp: ret_eq lacks_name_or_value_def elim!: pbindE)

lemma primary_expression_yields:
  "yields lacks_name_or_value (primary_expression n stmt expr)"
proof (rule yieldsI)
  fix s node s'
  assume "primary_expression n stmt expr s = Some (Inr (node, s'))"
  then show "lacks_name_or_value node"
    unfolding primary_expression_def match_expression_def case_expression_def
      project_expression_def partition_by_expression_def functional_expression_def
      parenthesized_expression_def
    by (elim pbindE)
       (auto simp: ret_eq lacks_name_or_value_def elim!: pbindE split: if_splits
          dest: yieldsD [OF identifier_expression_yields] yieldsD [OF array_expression_yields]
            yieldsD [OF literals_yields])
qed

lemma unary_expression_yields:
  "yields lacks_name_or_value (unary_expression n stmt expr)"
proof (rule yieldsI)
  fix s node s'
  assume "unary_expression n stmt expr s = Some (Inr (node, s'))"
  then show "lacks_name_or_value node"
    unfolding unary_expression_def
    by (elim pbindE)
       (auto simp: ret_eq elim!: pbindE split: if_splits
          dest: yieldsD [OF primary_expression_yields],
        auto simp: lacks_name_or_value_def)
qed

lemma over_expression_yields:
  "yields lacks_name_or_value (over_expression n stmt expr)"
  unfolding over_expression_def join_expr_def logical_or_def logical_and_def
    equality_expression_def relational_expression_def additive_expression_def
    multiplicative_expression_def membership_expression_def
  by (intro binary_expression_yields union_join_expression_yields unary_expression_yields)

lemma expression_yields: "yields lacks_name_or_value (expression n)"
proof (cases n)
  case 0
  then show ?thesis by (simp add: yields_def expression.simps)
next
  case (Suc m)
  have "expression (Suc m) = over_expression m (statement m) (expression m)"
    by (rule ext) (simp add: expression.simps)
  with Suc show ?thesis by (simp add: over_expression_yields)
qed

section \<open>Evaluating the lexer\<close>

text \<open>
  A rule \<open>\bw\b\<close> matches where the text \<open>w\<close> follows and both of its ends are word
  boundaries; testing the text first makes the evaluation of \<open>lex\<close> on a given input
  short.
\<close>

lemma matches_word:
  "matches (word w) (prev, rest) =
     (if take (length w) rest = w
      then (if at_boundary (prev, rest) \<and> at_boundary (advance (prev, rest) (length w))
            then [advance (prev, rest) (length w)] else [])
      else [])"
  unfolding word_def by (cases "at_boundary (prev, rest)") (simp_all del: at_boundary.simps)

lemmas lex_eval =
  lex_def token_spec_def matches_word is_word_def is_digit_def is_quote_def code_point_def

section \<open>The tokenizer on \<open>>=\<close> and \<open><=\<close>\<close>

lemma lex_ge: "lex ''a >= b'' =
    [Token IDENTIFIER ''a'', Token COMPARISON_OPERATOR ''>'', Token EQUALS ''='',
     Token IDENTIFIER ''b'']"
  by (simp add: lex_eval)

lemma lex_le: "lex ''a <= b'' =
    [Token IDENTIFIER ''a'', Token COMPARISON_OPERATOR ''<'', Token EQUALS ''='',
     Token IDENTIFIER ''b'']"
  by (simp add: lex_eval)

text \<open>
  C3. The claim: for a text made of grammar tokens separated by single spaces, the texts
  of the tokens, joined with single spaces, give the text back, \<open>>=\<close> and \<open><=\<close>
  included. The rule for comparison operators lists \<open>>\<close> before \<open>>=\<close> and \<open><\<close> before
  \<open><=\<close>, and the first alternative that matches wins: \<open>a >= b\<close> is cut into the four
  tokens \<open>a\<close>, \<open>>\<close>, \<open>=\<close>, \<open>b\<close>, which join to \<open>a > = b\<close>; likewise for \<open><=\<close>.
\<close>

theorem C3_lex_ge_split:
  "join '' '' (map tok_value (lex ''a >= b'')) = ''a > = b''
   \<and> join '' '' (map tok_value (lex ''a >= b'')) \<noteq> ''a >= b''
   \<and> join '' '' (map tok_value (lex ''a <= b'')) = ''a < = b''
   \<and> map tok_type (lex ''a >= b'') = [IDENTIFIER, COMPARISON_OPERATOR, EQUALS, IDENTIFIER]"
  by (simp add: lex_ge lex_le)

section \<open>End of input in \<open>_consume\<close>\<close>

lemma consume_at_end: "consume token_type [] = Some (Inl AttributeError)"
  by (simp add: consume_def peek_def pbind_def raise_def)

lemma consume_never_EOFError: "consume token_type s \<noteq> Some (Inl EOFError)"
  by (cases s) (simp_all add: consume_def peek_def pbind_def raise_def ret_def)

lemma lex_open_paren: "lex ''(a'' = [Token OPENING_PARENTHESIS ''('', Token IDENTIFIER ''a'']"
  by (simp add: lex_eval)

text \<open>
  C5. The claim: when a token must be consumed and none is left, the parse fails with the
  end-of-input error, distinct from the \<open>SyntaxError\<close> of a wrong token kind.
  \<open>_consume\<close> reads \<open>self._lookahead.type\<close> before it tests for an absent lookahead,
  so at the end of the input it raises \<open>AttributeError\<close>, and its \<open>EOFError\<close> is never
  raised: the text \<open>(a\<close>, whose closing parenthesis is missing, fails with
  \<open>AttributeError\<close>.
\<close>

theorem C5_end_of_input_is_AttributeError:
  "parse 20 ''(a'' = Some (Inl AttributeError)
   \<and> (\<forall>token_type. consume token_type [] = Some (Inl AttributeError))
   \<and> (\<forall>token_type s. consume token_type s \<noteq> Some (Inl EOFError))"
proof -
  have "statement_list 20 [Token OPENING_PARENTHESIS ''('', Token IDENTIFIER ''a'']
        = Some (Inl AttributeError)"
    by code_simp
  then show ?thesis
    by (simp add: parse_def lex_open_paren consume_at_end consume_never_EOFError)
qed

section \<open>The end-to-end scenario\<close>

lemma lex_scenario:
  "lex ''let x = { count(a), b: sum(c) where a > 1 group by b }'' =
    [Token KEYWORD ''let'', Token IDENTIFIER ''x'', Token EQUALS ''='',
     Token OPENING_CURLY_BRACKET ''{'', Token KEYWORD ''count'',
     Token OPENING_PARENTHESIS ''('', Token IDENTIFIER ''a'', Token CLOSING_PARENTHESIS '')'',
     Token COMMA '','', Token IDENTIFIER ''b'', Token COLON '':'', Token KEYWORD ''sum'',
     Token OPENING_PARENTHESIS ''('', Token IDENTIFIER ''c'', Token CLOSING_PARENTHESIS '')'',
     Token KEYWORD ''where'', Token IDENTIFIER ''a'', Token COMPARISON_OPERATOR ''>'',
     Token NUMBER ''1'', Token KEYWORD ''group by'', Token IDENTIFIER ''b'',
     Token CLOSING_CURLY_BRACKET ''}'']"
  by (simp add: lex_eval)

lemma lex_scenario_named:
  "lex ''let x = { a: count(a), b: sum(c) where a > 1 group by b }'' =
    [Token KEYWORD ''let'', Token IDENTIFIER ''x'', Token EQUALS ''='',
     Token OPENING_CURLY_BRACKET ''{'', Token IDENTIFIER ''a'', Token COLON '':'',
     Token KEYWORD ''count'',
     Token OPENING_PARENTHESIS ''('', Token IDENTIFIER ''a'', Token CLOSING_PARENTHESIS '')'',
     Token COMMA '','', Token IDENTIFIER ''b'', Token COLON '':'', Token KEYWORD ''sum'',
     Token OPENING_PARENTHESIS ''('', Token IDENTIFIER ''c'', Token CLOSING_PARENTHESIS '')'',
     Token KEYWORD ''where'', Token IDENTIFIER ''a'', Token COMPARISON_OPERATOR ''>'',
     Token NUMBER ''1'', Token KEYWORD ''group by'', Token IDENTIFIER ''b'',
     Token CLOSING_CURLY_BRACKET ''}'']"
  by (simp add: lex_eval)

text \<open>
  C1, as stated: for the input \<open>let x = { count(a), b: sum(c) where a > 1 group by b }\<close>
  parse followed by generate succeeds. It does not: \<open>count\<close> is a \<open>KEYWORD\<close> token right
  after \<open>{\<close>, so \<open>block_statement\<close> takes it as the modifier; \<open>(a)\<close> is then a
  parenthesized expression, and the comma that follows starts no statement: the last
  resort \<open>null_literal\<close> raises \<open>SyntaxError\<close> for the expected kind \<open>NULL\<close>.
\<close>

theorem C1_scenario_raises:
  "parse 40 ''let x = { count(a), b: sum(c) where a > 1 group by b }''
     = Some (Inl (SyntaxError NULL))
   \<and> translate 40 ''let x = { count(a), b: sum(c) where a > 1 group by b }''
     = Some (Inl (SyntaxError NULL))"
proof -
  have "statement_list 40 (lex ''let x = { count(a), b: sum(c) where a > 1 group by b }'')
        = Some (Inl (SyntaxError NULL))"
    unfolding lex_scenario by code_simp
  then show ?thesis
    by (simp add: translate_def parse_def bind_def)
qed

text \<open>
  C1, amended: with a name for the first column, \<open>a: count(a)\<close>, parse followed by
  generate succeeds and produces the assignment to \<open>x\<close> whose body is
  \<open>None.select(count(a).alias('a'), sum(c).alias('b')).filter(a > 1).groupBy(b)\<close>
  followed by \<open>.alias('x')\<close>, with the line breaks shown below; \<open>None\<close> is what the
  source-table discovery yields here, since no identifier of the first column assignment
  is dotted.
\<close>

theorem C1_scenario_named_first_column:
  "translate 40 ''let x = { a: count(a), b: sum(c) where a > 1 group by b }'' =
     Some (Inr (''x = ('' @ nl
       @ ''None.select('' @ nl
       @ ''count(a).alias('' @ sq @ ''a'' @ sq @ ''),'' @ nl
       @ ''sum(c).alias('' @ sq @ ''b'' @ sq @ '')'' @ nl
       @ '')'' @ nl
       @ ''.filter(a > 1)'' @ nl
       @ ''.groupBy(b)'' @ nl
       @ ''.alias('' @ sq @ ''x'' @ sq @ '')'' @ nl
       @ '')'' @ nl))"
  unfolding translate_def parse_def lex_scenario_named by code_simp

section \<open>Column assignments without a colon\<close>

lemma lex_bare_column: "lex ''let x = { a }'' =
    [Token KEYWORD ''let'', Token IDENTIFIER ''x'', Token EQUALS ''='',
     Token OPENING_CURLY_BRACKET ''{'', Token IDENTIFIER ''a'', Token CLOSING_CURLY_BRACKET ''}'']"
  by (simp add: lex_eval)


lemma mapM_fails: "x \<in> set xs \<Longrightarrow> f x = Inl e \<Longrightarrow> \<exists>e'. mapM f xs = Inl e'"
proof (induction xs)
  case Nil
  then show ?case by simp
next
  case (Cons y ys)
  show ?case
  proof (cases "f y")
    case (Inl e1)
    then show ?thesis by simp
  next
    case (Inr r)
    with Cons.prems have "x \<in> set ys" by auto
    then obtain e' where "mapM f ys = Inl e'" using Cons.IH Cons.prems(2) by blast
    with Inr show ?thesis by simp
  qed
qed

lemma create_assignment_fails:
  assumes "lacks_name_or_value item"
  shows "\<exists>e. create_assignment item = Inl e"
  using assms unfolding create_assignment_def lacks_name_or_value_def bind_def
  by (auto simp: isl_def split: sum.splits)

text \<open>
  An assignment written without \<open>:\<close> leaves the node of its expression in the column
  list: where the expression is followed by a token other than a colon,
  \<open>column_assignment_statement\<close> returns what the expression rule returned.
\<close>

lemma column_assignment_statement_without_colon:
  assumes "expr s = Some (Inr (name, t # rest))" and "tok_type t \<noteq> COLON"
  shows "column_assignment_statement expr s = Some (Inr (name, t # rest))"
  using assms by (simp add: column_assignment_statement_def pbind_def peek_def ret_def)



section \<open>Join chains\<close>

lemma lex_join_chain:
  "lex ''a join b on a.id == b.id join c on b.id == c.id'' =
    [Token IDENTIFIER ''a'', Token JOINS ''join'', Token IDENTIFIER ''b'', Token KEYWORD ''on'',
     Token IDENTIFIER ''a'', Token DOT ''.'', Token IDENTIFIER ''id'',
     Token COMPARISON_OPERATOR ''=='',
     Token IDENTIFIER ''b'', Token DOT ''.'', Token IDENTIFIER ''id'',
     Token JOINS ''join'', Token IDENTIFIER ''c'', Token KEYWORD ''on'',
     Token IDENTIFIER ''b'', Token DOT ''.'', Token IDENTIFIER ''id'',
     Token COMPARISON_OPERATOR ''=='',
     Token IDENTIFIER ''c'', Token DOT ''.'', Token IDENTIFIER ''id'']"
  by (simp add: lex_eval)

lemma lex_let_join_chain:
  "lex ''let t = a join b on a.id == b.id join c on b.id == c.id'' =
    [Token KEYWORD ''let'', Token IDENTIFIER ''t'', Token EQUALS ''='',
     Token IDENTIFIER ''a'', Token JOINS ''join'', Token IDENTIFIER ''b'', Token KEYWORD ''on'',
     Token IDENTIFIER ''a'', Token DOT ''.'', Token IDENTIFIER ''id'',
     Token COMPARISON_OPERATOR ''=='',
     Token IDENTIFIER ''b'', Token DOT ''.'', Token IDENTIFIER ''id'',
     Token JOINS ''join'', Token IDENTIFIER ''c'', Token KEYWORD ''on'',
     Token IDENTIFIER ''b'', Token DOT ''.'', Token IDENTIFIER ''id'',
     Token COMPARISON_OPERATOR ''=='',
     Token IDENTIFIER ''c'', Token DOT ''.'', Token IDENTIFIER ''id'']"
  by (simp add: lex_eval)

definition join_chain :: pyval where
  \<comment> \<open>\<open>JoinExpression(JoinExpression(a, b, a.id == b.id), c, b.id == c.id)\<close>\<close>
  "join_chain =
     Join ''join''
       (Join ''join'' (Identifier ''a'') (Identifier ''b'')
          (Binary ''=='' (Dotted ''a.id'' ''a'') (Dotted ''b.id'' ''b'')))
       (Identifier ''c'')
       (Binary ''=='' (Dotted ''b.id'' ''b'') (Dotted ''c.id'' ''c''))"

definition join_chain_text :: string where
  \<comment> \<open>\<open>a.join(b, on=a['id'] == b['id'], how="join").join(c, on=b['id'] == c['id'], how="join")\<close>\<close>
  "join_chain_text =
     ''a.join(b, on=a['' @ sq @ ''id'' @ sq @ ''] == b['' @ sq @ ''id'' @ sq @ ''], how=''
       @ dq @ ''join'' @ dq @ '')''
     @ ''.join(c, on=b['' @ sq @ ''id'' @ sq @ ''] == c['' @ sq @ ''id'' @ sq @ ''], how=''
       @ dq @ ''join'' @ dq @ '')''"



section \<open>The null-check idiom of \<open>!=\<close>\<close>

lemma lex_ne_zero: "lex ''let x = a != 0'' =
    [Token KEYWORD ''let'', Token IDENTIFIER ''x'', Token EQUALS ''='', Token IDENTIFIER ''a'',
     Token COMPARISON_OPERATOR ''!='', Token NUMBER ''0'']"
  by (simp add: lex_eval)

lemma lex_ne_one: "lex ''let x = a != 1'' =
    [Token KEYWORD ''let'', Token IDENTIFIER ''x'', Token EQUALS ''='', Token IDENTIFIER ''a'',
     Token COMPARISON_OPERATOR ''!='', Token NUMBER ''1'']"
  by (simp add: lex_eval)

lemma create_literal_Null: "create_literal Null = Inr PNone"
  by (simp add: create_literal_def Null_def bind_def)

lemma create_literal_Numeric: "create_literal (Numeric i) = Inr (PInt i)"
  by (simp add: create_literal_def Numeric_def bind_def)

lemma create_expression_Null: "create_expression Null = Inr PNone"
  unfolding create_expression.simps [of Null]
  by (simp add: create_literal_def Null_def bind_def)

lemma create_expression_Numeric: "create_expression (Numeric i) = Inr (PInt i)"
  unfolding create_expression.simps [of "Numeric i"]
  by (simp add: create_literal_def Numeric_def bind_def)

text \<open>
  C6. The claim: a \<open>!=\<close> comparison is rendered as \<open>left.isNotNull()\<close> exactly when the
  rendering of its right-hand side is empty, and as \<open>left != right\<close> whenever that
  rendering is not empty. The test in the code is \<open>not right\<close>, and \<open>create_literal\<close>
  returns the \<open>int\<close> of a numeric literal, not its text: for \<open>a != 0\<close> the right-hand
  side renders as the number \<open>0\<close>, whose text \<open>0\<close> is not empty, and the comparison
  is rendered as \<open>a.isNotNull()\<close>, whereas \<open>a != 1\<close> is rendered as \<open>a != 1\<close>.
\<close>

theorem C6_not_equal_zero_is_isNotNull:
  "translate 40 ''let x = a != 0''
     = Some (Inr (''x = ('' @ nl @ ''a.isNotNull()'' @ nl
                  @ ''.alias('' @ sq @ ''x'' @ sq @ '')'' @ nl @ '')'' @ nl))
   \<and> create_expression (Numeric 0) = Inr (PInt 0)
   \<and> py_str (PInt 0) = ''0''
   \<and> translate 40 ''let x = a != 1''
     = Some (Inr (''x = ('' @ nl @ ''a != 1'' @ nl
                  @ ''.alias('' @ sq @ ''x'' @ sq @ '')'' @ nl @ '')'' @ nl))"
proof -
  have 1: "translate 40 ''let x = a != 0''
             = Some (Inr (''x = ('' @ nl @ ''a.isNotNull()'' @ nl
                          @ ''.alias('' @ sq @ ''x'' @ sq @ '')'' @ nl @ '')'' @ nl))"
    unfolding translate_def parse_def lex_ne_zero by code_simp
  have 2: "translate 40 ''let x = a != 1''
             = Some (Inr (''x = ('' @ nl @ ''a != 1'' @ nl
                          @ ''.alias('' @ sq @ ''x'' @ sq @ '')'' @ nl @ '')'' @ nl))"
    unfolding translate_def parse_def lex_ne_one by code_simp
  have 3: "py_str (PInt 0) = ''0''"
    by code_simp
  show ?thesis
    using 1 2 3 by (simp add: create_expression_Numeric)
qed

text \<open>
  C8. For every \<open>!=\<close> comparison whose right-hand side is the null literal or the numeric
  literal \<open>0\<close>, and whose left-hand side renders (as \<open>left\<close>), the generator emits
  \<open>left.isNotNull()\<close>: \<open>create_literal\<close> returns \<open>None\<close> for a \<open>NULL\<close> node, for
  which it has no branch, and the \<open>int\<close> itself for a numeric literal, and both
  \<open>None\<close> and \<open>0\<close> are false in the test \<open>not right\<close>.
\<close>

theorem C8_null_and_zero_trigger_isNotNull:
  assumes "create_expression l = Inr left"
    and "r = Null \<or> r = Numeric 0"
  shows "create_binary_expression (Binary ''!='' l r) = Inr (PStr (py_str left @ ''.isNotNull()''))
         \<and> create_expression (Binary ''!='' l r) = Inr (PStr (py_str left @ ''.isNotNull()''))
         \<and> create_literal Null = Inr PNone \<and> \<not> truthy PNone
         \<and> create_literal (Numeric 0) = Inr (PInt 0) \<and> \<not> truthy (PInt 0)"
proof -
  from assms(2) have r: "create_expression r = Inr PNone \<or> create_expression r = Inr (PInt 0)"
    by (auto simp: create_expression_Null create_expression_Numeric)
  have fields: "getitem (Binary ''!='' l r) ''left'' = Inr l"
    "getitem (Binary ''!='' l r) ''right'' = Inr r"
    "getitem (Binary ''!='' l r) ''operator'' = Inr (PStr ''!='')"
    "getitem (Binary ''!='' l r) ''type'' = Inr (PStr ''BinaryExpression'')"
    by (simp_all add: Binary_def)
  have b: "create_binary_expression (Binary ''!='' l r)
             = Inr (PStr (py_str left @ ''.isNotNull()''))"
    using r by (auto simp: create_binary_expression.simps [of "Binary ''!='' l r"] fields
        assms(1) bind_def)
  have "create_expression (Binary ''!='' l r) = create_binary_expression (Binary ''!='' l r)"
    by (simp add: create_expression.simps [of "Binary ''!='' l r"] fields bind_def)
  with b show ?thesis
    by (simp add: create_literal_Null create_literal_Numeric)
qed

theorem C8_null_and_zero_trigger_isNotNull_witness:
  "create_expression (Identifier ''a'') = Inr (PStr ''a'')
   \<and> (Null = Null \<or> Null = Numeric 0)
   \<and> create_expression (Binary ''!='' (Identifier ''a'') Null) = Inr (PStr ''a.isNotNull()'')
   \<and> (Numeric 0 = Null \<or> Numeric 0 = Numeric 0)
   \<and> create_expression (Binary ''!='' (Identifier ''a'') (Numeric 0)) = Inr (PStr ''a.isNotNull()'')"
proof -
  have a: "create_expression (Identifier ''a'') = Inr (PStr ''a'')"
    by code_simp
  have n: "Null = Null \<or> Null = Numeric 0" by simp
  have z: "Numeric 0 = Null \<or> Numeric 0 = Numeric 0" by simp
  show ?thesis
    using a C8_null_and_zero_trigger_isNotNull [OF a n]
      C8_null_and_zero_trigger_isNotNull [OF a z]
    by simp
qed

section \<open>Arrays\<close>

text \<open>
  C7, as stated: an array renders its items unquoted, \<open>[1, 2]\<close> for the items \<open>1\<close> and
  \<open>2\<close>. \<open>create_array_expression\<close> formats each value as text and applies \<open>str\<close> to
  the list of these texts, which is the \<open>repr\<close> of a list of strings: every item comes
  out in single quotes, \<open>['1', '2']\<close>.
\<close>

theorem C7_array_items_are_quoted:
  "create_array_expression (Array [Numeric 1, Numeric 2])
     = Inr (PStr (''['' @ sq @ ''1'' @ sq @ '', '' @ sq @ ''2'' @ sq @ '']''))
   \<and> create_array_expression (Array [Numeric 1, Numeric 2]) \<noteq> Inr (PStr ''[1, 2]'')"
proof -
  have "create_array_expression (Array [Numeric 1, Numeric 2])
          = Inr (PStr (''['' @ sq @ ''1'' @ sq @ '', '' @ sq @ ''2'' @ sq @ '']''))"
    by code_simp
  then show ?thesis by (simp add: sq_def)
qed

text \<open>
  A text is \<open>plain\<close> when \<open>repr\<close> writes it between single quotes as it is: printable
  characters, no single quote, no backslash. The values of the literals that the parser
  builds are plain: word characters for a string, digits for a number, \<open>None\<close> for
  \<open>null\<close>.
\<close>

definition plain_text :: "string \<Rightarrow> bool" where
  "plain_text s = list_all (\<lambda>c. printable c \<and> c \<noteq> CHR 0x27 \<and> c \<noteq> CHR 0x5C) s"

lemma repr_char_plain:
  assumes "printable c" "c \<noteq> CHR 0x27" "c \<noteq> CHR 0x5C"
  shows "repr_char (CHR 0x27) c = [c]"
proof -
  have "c \<noteq> CHR 0x09" "c \<noteq> CHR 0x0A" "c \<noteq> CHR 0x0D"
    using assms(1) by (auto simp: printable_def code_point_def)
  with assms show ?thesis by (simp add: repr_char_def)
qed

lemma repr_str_plain: "plain_text s \<Longrightarrow> repr_str s = sq @ s @ sq"
proof -
  assume p: "plain_text s"
  then have "CHR 0x27 \<notin> set s"
    by (auto simp: plain_text_def list_all_iff)
  moreover from p have "concat (map (repr_char (CHR 0x27)) s) = s"
    by (induction s) (simp_all add: plain_text_def repr_char_plain)
  ultimately show ?thesis by (simp add: repr_str_def sq_def Let_def)
qed

lemma word_chars_plain: "list_all is_word s \<Longrightarrow> plain_text s"
proof -
  have "printable c \<and> c \<noteq> CHR 0x27 \<and> c \<noteq> CHR 0x5C" if "is_word c" for c
    using that by (auto simp: is_word_def printable_def code_point_def Let_def)
  then show "list_all is_word s \<Longrightarrow> plain_text s"
    by (auto simp: plain_text_def list_all_iff)
qed

lemma None_plain: "plain_text (py_str PNone)"
  by (simp add: plain_text_def printable_def code_point_def)

lemma mapM_item_values:
  "mapM (\<lambda>item. bind (getitem item ''value'') (\<lambda>v. Inr (PStr (py_str v))))
        (map (\<lambda>(ty, v). PDict [(''type'', PStr ty), (''value'', v)]) literal_values)
   = Inr (map (\<lambda>(ty, v). PStr (py_str v)) literal_values)"
  by (induction literal_values) auto

text \<open>
  C7, amended: an array of literal nodes (each a dict of a \<open>type\<close> and a \<open>value\<close>) whose
  values are plain as texts renders as the list of these texts, each between single
  quotes, separated by a comma and a space, between square brackets.
\<close>

theorem C7_array_renders_quoted_texts:
  assumes "\<forall>(ty, v) \<in> set literal_values. plain_text (py_str v)"
  shows "create_array_expression
           (Array (map (\<lambda>(ty, v). PDict [(''type'', PStr ty), (''value'', v)]) literal_values))
         = Inr (PStr (''['' @ join '', '' (map (\<lambda>(ty, v). sq @ py_str v @ sq) literal_values)
                      @ '']''))"
proof -
  have texts: "map (py_repr \<circ> (\<lambda>(ty, v). PStr (py_str v))) literal_values
          = map (\<lambda>(ty, v). sq @ py_str v @ sq) literal_values"
    using assms by (induction literal_values) (auto simp: repr_str_plain)
  show ?thesis
    by (simp add: create_array_expression_def Array_def mapM_item_values texts)
qed

theorem C7_array_renders_quoted_texts_witness:
  "plain_text (py_str (PInt 1)) \<and> plain_text (py_str (PStr ''ab'')) \<and> plain_text (py_str PNone)
   \<and> create_array_expression
        (Array [PDict [(''type'', PStr ''NumericLiteral''), (''value'', PInt 1)],
                PDict [(''type'', PStr ''StringLiteral''), (''value'', PStr ''ab'')],
                PDict [(''type'', PStr ''NULL''), (''value'', PNone)]])
     = Inr (PStr (''['' @ sq @ ''1'' @ sq @ '', '' @ sq @ ''ab'' @ sq @ '', ''
                  @ sq @ ''None'' @ sq @ '']''))"
proof -
  have one: "str_int 1 = ''1''"
    by code_simp
  have h: "\<forall>(ty, v) \<in> set [(''NumericLiteral'', PInt 1), (''StringLiteral'', PStr ''ab''),
                             (''NULL'', PNone)]. plain_text (py_str v)"
    by (simp add: one plain_text_def printable_def code_point_def)
  show ?thesis
    using h C7_array_renders_quoted_texts [OF h] by (simp add: one)
qed

section \<open>Blocks without a source table\<close>

text \<open>
  \<open>no_source_table e\<close>: \<open>e\<close> is a node (a dict), no dict in it has the key
  \<open>source_table\<close>, and its lists hold nodes only, as the lists of the parser's trees do.
\<close>

function no_source_table :: "pyval \<Rightarrow> bool" where
  "no_source_table (PDict kvs) =
     (''source_table'' \<notin> set (map fst kvs)
      \<and> list_all (\<lambda>val. case val of
                     PDict kvs' \<Rightarrow> no_source_table val
                   | PList items \<Rightarrow> list_all no_source_table items
                   | _ \<Rightarrow> True) (map snd kvs))"
| "no_source_table (PList items) = False"
| "no_source_table (PStr s) = False"
| "no_source_table (PInt i) = False"
| "no_source_table PNone = False"
  by pat_completeness auto
termination
proof (relation "measure size")
  show "wf (measure size)" by simp
next
  fix kvs kvs' :: "(string \<times> pyval) list" and val :: pyval
  assume "val \<in> set (map snd kvs)"
  then have "size val < size (PDict kvs)"
    using size_py_values [of "PDict kvs" "map snd kvs" val] by simp
  then show "(val, PDict kvs) \<in> measure size" by simp
next
  fix kvs :: "(string \<times> pyval) list" and val x :: pyval and items :: "pyval list"
  assume val: "val \<in> set (map snd kvs)" and items: "val = PList items" "x \<in> set items"
  have "size val < size (PDict kvs)"
    using val size_py_values [of "PDict kvs" "map snd kvs" val] by simp
  moreover have "size x < size val" using size_member [OF items(2)] by (simp add: items(1))
  ultimately show "(x, PDict kvs) \<in> measure size" by simp
qed

lemma first_truthy_none:
  "(\<And>x. x \<in> set xs \<Longrightarrow> f x = Inr PNone) \<Longrightarrow> first_truthy f xs = Inr PNone"
  by (induction xs) simp_all

lemma get_source_table_none: "no_source_table expr \<Longrightarrow> get_source_table expr = Inr PNone"
proof (induction expr rule: get_source_table.induct)
  case (1 expr)
  from "1.prems" obtain kvs where expr: "expr = PDict kvs"
    by (cases expr) simp_all
  with "1.prems" have absent: "''source_table'' \<notin> set (map fst kvs)"
    and vals: "\<And>val. val \<in> set (map snd kvs) \<Longrightarrow>
                 (case val of PDict kvs' \<Rightarrow> no_source_table val
                  | PList items \<Rightarrow> list_all no_source_table items | _ \<Rightarrow> True)"
    by (auto simp: list_all_iff)
  have not_found: "py_contains ''source_table'' expr = Inr False"
    using absent by (simp add: expr)
  have all_values: "py_values expr = Inr (map snd kvs)"
    by (simp add: expr)
  have each: "(case val of PDict kvs' \<Rightarrow> get_source_table val
               | PList items \<Rightarrow> first_truthy get_source_table items
               | _ \<Rightarrow> Inr PNone) = Inr PNone"
    if mem: "val \<in> set (map snd kvs)" for val
  proof (cases val)
    case (PDict kvs')
    with vals [OF mem] have "no_source_table val" by simp
    then have "get_source_table val = Inr PNone"
      using "1.IH"(2) [OF not_found _ all_values mem PDict] by simp
    with PDict show ?thesis by simp
  next
    case (PList items)
    with vals [OF mem] have all: "list_all no_source_table items" by simp
    have "get_source_table x = Inr PNone" if "x \<in> set items" for x
      using "1.IH"(1) [OF not_found _ all_values mem PList that] all that
      by (simp add: list_all_iff)
    then have "first_truthy get_source_table items = Inr PNone"
      by (rule first_truthy_none)
    with PList show ?thesis by simp
  qed simp_all
  have "first_truthy (\<lambda>val. case val of PDict kvs' \<Rightarrow> get_source_table val
                           | PList items \<Rightarrow> first_truthy get_source_table items
                           | _ \<Rightarrow> Inr PNone) (map snd kvs) = Inr PNone"
    by (rule first_truthy_none) (rule each)
  then show ?case
    unfolding get_source_table.simps [of expr]
    by (simp add: not_found all_values)
qed

lemma lex_dotted_name: "lex ''let x = { t.a: b }'' =
    [Token KEYWORD ''let'', Token IDENTIFIER ''x'', Token EQUALS ''='',
     Token OPENING_CURLY_BRACKET ''{'', Token IDENTIFIER ''t'', Token DOT ''.'',
     Token IDENTIFIER ''a'', Token COLON '':'', Token IDENTIFIER ''b'',
     Token CLOSING_CURLY_BRACKET ''}'']"
  by (simp add: lex_eval)

lemma lex_count_one: "lex ''let x = { a: count(1) }'' =
    [Token KEYWORD ''let'', Token IDENTIFIER ''x'', Token EQUALS ''='',
     Token OPENING_CURLY_BRACKET ''{'', Token IDENTIFIER ''a'', Token COLON '':'',
     Token KEYWORD ''count'', Token OPENING_PARENTHESIS ''('', Token NUMBER ''1'',
     Token CLOSING_PARENTHESIS '')'', Token CLOSING_CURLY_BRACKET ''}'']"
  by (simp add: lex_eval)

text \<open>
  C9, as stated: when the value of the first column assignment holds no dotted identifier,
  generate does not fail and the text of the block begins with \<open>None.select(\<close>. Two
  inputs show otherwise. For \<open>{ t.a: b }\<close> the value \<open>b\<close> holds no dotted identifier,
  but the search runs over the whole first column assignment, its name included, and the
  block begins with \<open>t.select(\<close>. For \<open>{ a: count(1) }\<close> no identifier is dotted, and
  generate fails: the argument \<open>1\<close> renders as an \<open>int\<close>, which \<open>','.join\<close> rejects
  with a \<open>TypeError\<close>.
\<close>

theorem C9_source_from_name_and_failure:
  "translate 40 ''let x = { t.a: b }''
     = Some (Inr (''x = ('' @ nl @ ''t.select('' @ nl
                  @ ''b.alias('' @ sq @ ''t.a'' @ sq @ '')'' @ nl @ '')'' @ nl
                  @ ''.alias('' @ sq @ ''x'' @ sq @ '')'' @ nl @ '')'' @ nl))
   \<and> create_block_statement
        (Block PNone [ColumnAssignments [ColumnAssignment (Dotted ''t.a'' ''t'') (Identifier ''b'')]])
     = Inr (PStr (''t.select('' @ nl @ ''b.alias('' @ sq @ ''t.a'' @ sq @ '')'' @ nl @ '')''))
   \<and> translate 40 ''let x = { a: count(1) }'' = Some (Inl TypeError)"
proof -
  have 1: "translate 40 ''let x = { t.a: b }''
     = Some (Inr (''x = ('' @ nl @ ''t.select('' @ nl
                  @ ''b.alias('' @ sq @ ''t.a'' @ sq @ '')'' @ nl @ '')'' @ nl
                  @ ''.alias('' @ sq @ ''x'' @ sq @ '')'' @ nl @ '')'' @ nl))"
    unfolding translate_def parse_def lex_dotted_name by code_simp
  have 2: "create_block_statement
        (Block PNone [ColumnAssignments [ColumnAssignment (Dotted ''t.a'' ''t'') (Identifier ''b'')]])
     = Inr (PStr (''t.select('' @ nl @ ''b.alias('' @ sq @ ''t.a'' @ sq @ '')'' @ nl @ '')''))"
    by code_simp
  have 3: "translate 40 ''let x = { a: count(1) }'' = Some (Inl TypeError)"
    unfolding translate_def parse_def lex_count_one by code_simp
  show ?thesis
    using 1 2 3 by simp
qed

text \<open>
  C9, amended: when the first column assignment of a block, name and value, holds no node
  with a \<open>source_table\<close> field, the search returns \<open>None\<close>, and whenever
  \<open>create_block_statement\<close> returns a text, the text begins with the characters
  \<open>None.select(\<close>.
\<close>

theorem C9_no_source_table_renders_None:
  assumes "getitem stmt ''body'' = Inr body"
    and "getindex body 0 = Inr first"
    and "getitem first ''body'' = Inr col_assignments"
    and "getindex col_assignments 0 = Inr first_assignment"
    and "no_source_table first_assignment"
    and "create_block_statement stmt = Inr rendered"
  shows "get_source_table first_assignment = Inr PNone
         \<and> (\<exists>text. rendered = PStr text \<and> take 12 text = ''None.select('')"
proof -
  have none: "get_source_table first_assignment = Inr PNone"
    using assms(5) by (rule get_source_table_none)
  from assms(6) have "\<exists>text. rendered = PStr text \<and> take 12 text = ''None.select(''"
    unfolding create_block_statement_def
    by (auto simp: assms(1-4) none bind_def Let_def split: sum.splits if_splits)
  with none show ?thesis by simp
qed

theorem C9_no_source_table_renders_None_witness:
  "getitem (Block PNone [ColumnAssignments [ColumnAssignment (Identifier ''a'') (Identifier ''b'')]])
       ''body''
     = Inr (PList [ColumnAssignments [ColumnAssignment (Identifier ''a'') (Identifier ''b'')]])
   \<and> getindex (PList [ColumnAssignments [ColumnAssignment (Identifier ''a'') (Identifier ''b'')]]) 0
     = Inr (ColumnAssignments [ColumnAssignment (Identifier ''a'') (Identifier ''b'')])
   \<and> getitem (ColumnAssignments [ColumnAssignment (Identifier ''a'') (Identifier ''b'')]) ''body''
     = Inr (PList [ColumnAssignment (Identifier ''a'') (Identifier ''b'')])
   \<and> getindex (PList [ColumnAssignment (Identifier ''a'') (Identifier ''b'')]) 0
     = Inr (ColumnAssignment (Identifier ''a'') (Identifier ''b''))
   \<and> no_source_table (ColumnAssignment (Identifier ''a'') (Identifier ''b''))
   \<and> create_block_statement
        (Block PNone [ColumnAssignments [ColumnAssignment (Identifier ''a'') (Identifier ''b'')]])
     = Inr (PStr (''None.select('' @ nl @ ''b.alias('' @ sq @ ''a'' @ sq @ '')'' @ nl @ '')''))
   \<and> get_source_table (ColumnAssignment (Identifier ''a'') (Identifier ''b'')) = Inr PNone
   \<and> take 12 (''None.select('' @ nl @ ''b.alias('' @ sq @ ''a'' @ sq @ '')'' @ nl @ '')'')
     = ''None.select(''"
proof -
  have 1: "getitem (Block PNone [ColumnAssignments [ColumnAssignment (Identifier ''a'') (Identifier ''b'')]])
       ''body''
     = Inr (PList [ColumnAssignments [ColumnAssignment (Identifier ''a'') (Identifier ''b'')]])"
    by (simp add: Block_def)
  have 2: "getindex (PList [ColumnAssignments [ColumnAssignment (Identifier ''a'') (Identifier ''b'')]]) 0
     = Inr (ColumnAssignments [ColumnAssignment (Identifier ''a'') (Identifier ''b'')])"
    by simp
  have 3: "getitem (ColumnAssignments [ColumnAssignment (Identifier ''a'') (Identifier ''b'')]) ''body''
     = Inr (PList [ColumnAssignment (Identifier ''a'') (Identifier ''b'')])"
    by (simp add: ColumnAssignments_def)
  have 4: "getindex (PList [ColumnAssignment (Identifier ''a'') (Identifier ''b'')]) 0
     = Inr (ColumnAssignment (Identifier ''a'') (Identifier ''b''))"
    by simp
  have 5: "no_source_table (ColumnAssignment (Identifier ''a'') (Identifier ''b''))"
    by (simp add: node_defs)
  have 6: "create_block_statement
        (Block PNone [ColumnAssignments [ColumnAssignment (Identifier ''a'') (Identifier ''b'')]])
     = Inr (PStr (''None.select('' @ nl @ ''b.alias('' @ sq @ ''a'' @ sq @ '')'' @ nl @ '')''))"
    by code_simp
  show ?thesis
    using 1 2 3 4 5 6 C9_no_source_table_renders_None [OF 1 2 3 4 5 6] by simp
qed

section \<open>The modifier of a block\<close>

lemma consume_head:
  "consume token_type (Token token_type v # rest) = Some (Inr (Token token_type v, rest))"
  by (simp add: consume_def peek_def pbind_def ret_def)

lemma peek_head: "peek (t # rest) = Some (Inr (t, t # rest))"
  by (simp add: peek_def ret_def)

lemma lex_count_block: "lex ''{ count(a) }'' =
    [Token OPENING_CURLY_BRACKET ''{'', Token KEYWORD ''count'',
     Token OPENING_PARENTHESIS ''('', Token IDENTIFIER ''a'', Token CLOSING_PARENTHESIS '')'',
     Token CLOSING_CURLY_BRACKET ''}'']"
  by (simp add: lex_eval)



end
